theory Spec2Isabelle
  imports Main
begin

section \<open>Library functions of Go used by the two programs\<close>

subsection \<open>Errors\<close>

text \<open>
  Every error value, panic included, that the modelled code can produce.
  \<open>ErrSyntax\<close> and \<open>ErrRange\<close> are the two errors of \<open>strconv.ParseInt\<close>;
  \<open>LibError\<close> is an error handed back by an external collaborator (JSON decoding, the
  HTTP client, the operating system); \<open>ErrorString\<close> is an error built by
  \<open>errors.New\<close> or \<open>fmt.Errorf\<close>; \<open>Panic\<close> is the message of \<open>log.Panic\<close>.
\<close>

datatype error =
    ErrSyntax
  | ErrRange
  | LibError string
  | ErrorString string
  | Panic string

subsection \<open>strconv and fmt\<close>

text \<open>Decimal digits of a natural number, most significant first.\<close>

definition digitChar :: "nat \<Rightarrow> char" where
  "digitChar n = ''0123456789'' ! (n mod 10)"

fun natDigits :: "nat \<Rightarrow> string" where
  "natDigits n =
     (if n < 10 then [digitChar n]
      else natDigits (n div 10) @ [digitChar (n mod 10)])"

declare natDigits.simps [simp del]

text \<open>\<open>strconv.Itoa\<close>: a minus sign for a negative number, no padding.\<close>

definition Itoa :: "int \<Rightarrow> string" where
  "Itoa i = (if i < 0 then ''-'' @ natDigits (nat (- i)) else natDigits (nat i))"

text \<open>
  \<open>fmt.Sprintf("%0wd", i)\<close>: the digits padded with zeros to the width \<open>w\<close>; the sign
  of a negative number counts towards the width and stands before the zeros.
\<close>

definition Sprintf_0d :: "nat \<Rightarrow> int \<Rightarrow> string" where
  "Sprintf_0d w i =
     (let sign = (if i < 0 then ''-'' else '''');
          ds = natDigits (nat \<bar>i\<bar>)
      in sign @ replicate (w - length sign - length ds) (CHR ''0'') @ ds)"

text \<open>The decimal digits; with the explicit base 10 no other character is accepted.\<close>

definition isDigit :: "char \<Rightarrow> bool" where
  "isDigit c = (48 \<le> (of_char c :: nat) \<and> (of_char c :: nat) \<le> 57)"

text \<open>
  \<open>strconv.ParseUint(s, 10, 64)\<close> reads the characters from left to right and stops at
  the first that is not a digit (\<open>ErrSyntax\<close>) or at the first digit with which the value
  leaves the range of a uint64 (\<open>ErrRange\<close>), whichever comes first. \<open>cutoff\<close> is the
  smallest number whose product with 10 is out of range.
\<close>

definition maxUint64 :: nat where "maxUint64 = 2 ^ 64 - 1"

definition cutoff :: nat where "cutoff = maxUint64 div 10 + 1"

fun parseUintLoop :: "nat \<Rightarrow> string \<Rightarrow> error + nat" where
  "parseUintLoop n [] = Inr n"
| "parseUintLoop n (c # cs) =
     (if \<not> isDigit c then Inl ErrSyntax
      else if n \<ge> cutoff then Inl ErrRange
      else
        let n1 = n * 10 + (of_char c - 48)
        in if n1 > maxUint64 then Inl ErrRange
           else parseUintLoop n1 cs)"

definition ParseUint :: "string \<Rightarrow> error + nat" where
  "ParseUint s = (if s = [] then Inl ErrSyntax else parseUintLoop 0 s)"

text \<open>
  \<open>strconv.ParseInt(s, 10, 64)\<close> takes the sign off, reads the rest with \<open>ParseUint\<close>
  and checks the range of an int64; an \<open>ErrRange\<close> of \<open>ParseUint\<close> ends as
  \<open>ErrRange\<close> here too.
\<close>

definition ParseInt :: "string \<Rightarrow> error + int" where
  "ParseInt s0 =
     (if s0 = [] then Inl ErrSyntax
      else
        let neg = (hd s0 = CHR ''-'');
            s = (if hd s0 = CHR ''+'' \<or> hd s0 = CHR ''-'' then tl s0 else s0)
        in case ParseUint s of
             Inl e \<Rightarrow> Inl e
           | Inr un \<Rightarrow>
               if \<not> neg \<and> un \<ge> 2 ^ 63 then Inl ErrRange
               else if neg \<and> un > 2 ^ 63 then Inl ErrRange
               else Inr (if neg then - int un else int un))"

subsection \<open>path/filepath\<close>

text \<open>The elements of a path between its slashes; \<open>splitSlash ''a//b''\<close> has an empty element.\<close>

fun splitSlash :: "string \<Rightarrow> string list" where
  "splitSlash [] = [[]]"
| "splitSlash (c # cs) =
     (if c = CHR ''/'' then [] # splitSlash cs
      else (case splitSlash cs of
              [] \<Rightarrow> [[c]]
            | x # xs \<Rightarrow> (c # x) # xs))"

text \<open>
  \<open>filepath.Clean\<close> on a Unix path. The elements are pushed on a stack (kept
  reversed): empty elements and \<open>.\<close> are dropped, \<open>..\<close> removes the element
  before it, is dropped at the root of a rooted path and is kept at the start of a relative one.
  The empty result is \<open>.\<close>.
\<close>

fun cleanStack :: "bool \<Rightarrow> string list \<Rightarrow> string list \<Rightarrow> string list" where
  "cleanStack rooted st [] = st"
| "cleanStack rooted st (e # es) =
     (if e = [] \<or> e = ''.'' then cleanStack rooted st es
      else if e = ''..'' then
        (case st of
           [] \<Rightarrow> cleanStack rooted (if rooted then [] else [e]) es
         | t # ts \<Rightarrow>
             if t = ''..'' then cleanStack rooted (e # st) es
             else cleanStack rooted ts es)
      else cleanStack rooted (e # st) es)"

fun joinSlash :: "string list \<Rightarrow> string" where
  "joinSlash [] = []"
| "joinSlash [x] = x"
| "joinSlash (x # y # ys) = x @ ''/'' @ joinSlash (y # ys)"

definition Clean :: "string \<Rightarrow> string" where
  "Clean path =
     (let rooted = (path \<noteq> [] \<and> hd path = CHR ''/'');
          out = (if rooted then ''/'' else []) @
                joinSlash (rev (cleanStack rooted [] (splitSlash path)))
      in if out = [] then ''.'' else out)"

text \<open>
  \<open>filepath.Join\<close>: the non-empty elements joined by slashes, then cleaned; the
  empty string when there is no non-empty element.
\<close>

definition Join :: "string list \<Rightarrow> string" where
  "Join elem =
     (let ne = filter (\<lambda>e. e \<noteq> []) elem
      in if ne = [] then [] else Clean (joinSlash ne))"

text \<open>\<open>filepath.Dir\<close>: the path up to and including its last slash, cleaned.\<close>

definition Dir :: "string \<Rightarrow> string" where
  "Dir path = Clean (rev (dropWhile (\<lambda>c. c \<noteq> CHR ''/'') (rev path)))"

subsection \<open>strings\<close>

text \<open>
  \<open>strings.ReplaceAll(s, old, new)\<close>: the non-overlapping occurrences of \<open>old\<close>
  replaced from left to right. The program passes the literal \<open>{eventSessionId}\<close> for
  \<open>old\<close>; the empty pattern, which Go matches between all characters, is left alone here.
\<close>

function ReplaceAll :: "string \<Rightarrow> string \<Rightarrow> string \<Rightarrow> string" where
  "ReplaceAll [] old new = []"
| "ReplaceAll (c # cs) old new =
     (if old \<noteq> [] \<and> take (length old) (c # cs) = old
      then new @ ReplaceAll (drop (length old) (c # cs)) old new
      else c # ReplaceAll cs old new)"
  by pat_completeness auto
termination
  by (relation "measure (\<lambda>(s, old, new). length s)") auto

subsection \<open>time\<close>

text \<open>
  A \<open>time.Time\<close> is an instant with a location. As in Go's representation the instant is
  a count of seconds since January 1 of year 1, 00:00:00 UTC (\<open>ext\<close>, an int64) and a
  nanosecond within the second (\<open>nsec\<close>, from 0 to 999999999). A location is modelled as a
  fixed offset in seconds east of UTC; locations whose offset changes over the year are
  outside the model.

  The functions below follow the package \<open>time\<close> of Go 1.22 statement by statement. Where
  Go computes with the seconds in int64 or uint64 the result is reduced as Go reduces it:
  \<open>wrapInt64\<close> is the wrap-around of a signed 64-bit sum, \<open>mod 2 ^ 64\<close> the conversion to
  uint64, and \<open>addSec\<close> saturates as Go's does. Sums and products of uint64 values are
  reduced once, where they end. The fields of a civil date and a \<open>Duration\<close> are far
  from the ends of their machine types in every call of the two programs, and are integers
  here.
\<close>

type_synonym Location = int

type_synonym Duration = int

record Time =
  ext :: int
  nsec :: int
  loc :: Location

definition Nanosecond :: Duration where "Nanosecond = 1"
definition Second :: Duration where "Second = 1000000000"
definition Hour :: Duration where "Hour = 3600 * Second"

definition secondsPerDay :: int where "secondsPerDay = 86400"

definition daysPer400Years :: int where "daysPer400Years = 365 * 400 + 97"
definition daysPer100Years :: int where "daysPer100Years = 365 * 100 + 24"
definition daysPer4Years :: int where "daysPer4Years = 365 * 4 + 1"

text \<open>
  The three epochs of the package: the absolute one, January 1 of the year
  \<open>absoluteZeroYear\<close>, from which the calendar functions count; the internal one,
  January 1 of year 1; and the Unix one. In Go \<open>absoluteToInternal\<close> is the constant
  \<open>(absoluteZeroYear - internalYear) * 365.2425 * secondsPerDay\<close>; 365.2425 days are
  \<open>daysPer400Years / 400\<close>.
\<close>

definition absoluteZeroYear :: int where "absoluteZeroYear = - 292277022399"

definition internalYear :: int where "internalYear = 1"

definition absoluteToInternal :: int where
  "absoluteToInternal =
     (absoluteZeroYear - internalYear) * daysPer400Years div 400 * secondsPerDay"

definition internalToAbsolute :: int where
  "internalToAbsolute = - absoluteToInternal"

definition unixToInternal :: int where
  "unixToInternal = (1969 * 365 + 1969 div 4 - 1969 div 100 + 1969 div 400) * secondsPerDay"

definition internalToUnix :: int where
  "internalToUnix = - unixToInternal"

text \<open>The value an int64 holds after a sum whose exact value is \<open>x\<close>.\<close>

definition wrapInt64 :: "int \<Rightarrow> int" where
  "wrapInt64 x = (x + 2 ^ 63) mod 2 ^ 64 - 2 ^ 63"

text \<open>
  The quotient and remainder of Go's integer division, which truncates towards zero.
\<close>

definition quot :: "int \<Rightarrow> int \<Rightarrow> int" where
  "quot a b = sgn a * sgn b * (\<bar>a\<bar> div \<bar>b\<bar>)"

definition rem :: "int \<Rightarrow> int \<Rightarrow> int" where
  "rem a b = a - b * quot a b"

text \<open>
  \<open>Time.addSec\<close>: the seconds are added in int64; a sum that overflows is replaced by the
  largest, respectively the smallest, value.
\<close>

definition addSec :: "Time \<Rightarrow> int \<Rightarrow> Time" where
  "addSec t d =
     (let sum = wrapInt64 (ext t + d)
      in if (sum > ext t) = (d > 0) then t\<lparr>ext := sum\<rparr>
         else if d > 0 then t\<lparr>ext := 2 ^ 63 - 1\<rparr>
         else t\<lparr>ext := - (2 ^ 63 - 1)\<rparr>)"

text \<open>
  \<open>Time.Add\<close>: whole seconds and nanoseconds are added apart, and the nanoseconds are
  brought back into range.
\<close>

definition Add :: "Time \<Rightarrow> Duration \<Rightarrow> Time" where
  "Add t d =
     (let dsec = quot d 1000000000;
          ns = nsec t + rem d 1000000000;
          (dsec, ns) = (if ns \<ge> 1000000000 then (dsec + 1, ns - 1000000000)
                        else if ns < 0 then (dsec - 1, ns + 1000000000)
                        else (dsec, ns))
      in addSec (t\<lparr>nsec := ns\<rparr>) dsec)"

text \<open>\<open>Time.Before\<close> compares instants: seconds first, then nanoseconds.\<close>

definition Before :: "Time \<Rightarrow> Time \<Rightarrow> bool" where
  "Before t u = (ext t < ext u \<or> (ext t = ext u \<and> nsec t < nsec u))"

text \<open>\<open>Time.In\<close> and \<open>Time.Local\<close> keep the instant and set the location.\<close>

definition In :: "Time \<Rightarrow> Location \<Rightarrow> Time" where
  "In t l = t\<lparr>loc := l\<rparr>"

text \<open>
  \<open>time.Unix(sec, 0)\<close>: \<open>sec\<close> is an int64 and Go adds the distance between the two
  epochs in int64 arithmetic, which wraps around. Its documentation says so: not all
  sec values have a corresponding time value, one such value being \<open>1<<63-1\<close>.
\<close>

definition Unix :: "Location \<Rightarrow> int \<Rightarrow> Time" where
  "Unix local sec = \<lparr>ext = wrapInt64 (sec + unixToInternal), nsec = 0, loc = local\<rparr>"

text \<open>
  \<open>Time.abs\<close>: the seconds since the absolute epoch on the wall clock of the time's
  location, a uint64. Go adds \<open>internalToUnix\<close>, the offset of the location and
  \<open>unixToInternal + internalToAbsolute\<close> in int64 and converts the sum to uint64.
\<close>

definition abs_sec :: "Time \<Rightarrow> int" where
  "abs_sec t =
     (ext t + internalToUnix + loc t + (unixToInternal + internalToAbsolute)) mod 2 ^ 64"

text \<open>
  \<open>absDate\<close>: the civil date of a count of seconds since the absolute epoch: 400-year,
  100-year, 4-year cycles, then single years; the result is the year, the month (1 to 12),
  the day of the month and the day of the year (from 0).
\<close>

definition isLeap :: "int \<Rightarrow> bool" where
  "isLeap year = (year mod 4 = 0 \<and> (year mod 100 \<noteq> 0 \<or> year mod 400 = 0))"

definition daysBefore :: "int list" where
  "daysBefore = [0, 31, 59, 90, 120, 151, 181, 212, 243, 273, 304, 334, 365]"

definition absDate :: "int \<Rightarrow> int \<times> int \<times> int \<times> int" where
  "absDate a =
     (let d = a div secondsPerDay;
          n = d div daysPer400Years;
          y = 400 * n;
          d = d - daysPer400Years * n;
          n = d div daysPer100Years;
          n = n - n div 4;
          y = y + 100 * n;
          d = d - daysPer100Years * n;
          n = d div daysPer4Years;
          y = y + 4 * n;
          d = d - daysPer4Years * n;
          n = d div 365;
          n = n - n div 4;
          y = y + n;
          d = d - 365 * n;
          year = y + absoluteZeroYear;
          yday = d
      in if isLeap year \<and> yday = 31 + 29 - 1 then (year, 2, 29, yday)
         else
           let day = (if isLeap year \<and> yday > 31 + 29 - 1 then yday - 1 else yday);
               month = day div 31;
               end = daysBefore ! nat (month + 1);
               (month, begin) = (if day \<ge> end then (month + 1, end)
                                 else (month, daysBefore ! nat month))
           in (year, month + 1, day - begin + 1, yday))"

definition Year :: "Time \<Rightarrow> int" where
  "Year t = (case absDate (abs_sec t) of (y, m, d, yd) \<Rightarrow> y)"

definition Month :: "Time \<Rightarrow> int" where
  "Month t = (case absDate (abs_sec t) of (y, m, d, yd) \<Rightarrow> m)"

definition Day :: "Time \<Rightarrow> int" where
  "Day t = (case absDate (abs_sec t) of (y, m, d, yd) \<Rightarrow> d)"

definition Hour_of :: "Time \<Rightarrow> int" where
  "Hour_of t = (abs_sec t mod secondsPerDay) div 3600"

definition Minute_of :: "Time \<Rightarrow> int" where
  "Minute_of t = (abs_sec t mod 3600) div 60"

definition Second_of :: "Time \<Rightarrow> int" where
  "Second_of t = abs_sec t mod 60"

definition January :: int where "January = 1"
definition December :: int where "December = 12"

text \<open>
  \<open>time.Date\<close>: values out of range are normalised (\<open>norm\<close> carries into the next
  unit; the day is not normalised but added to the day count), then the days since the
  absolute epoch are computed from the year, the month and the day, in uint64. The seconds
  are brought to the Unix epoch, the offset of the location is taken off and \<open>unixTime\<close>
  brings them to the internal epoch, each time in int64.
\<close>

definition norm :: "int \<Rightarrow> int \<Rightarrow> int \<Rightarrow> int \<times> int" where
  "norm hi lo base =
     (let (hi, lo) = (if lo < 0 then
                        (let n = (- lo - 1) div base + 1 in (hi - n, lo + n * base))
                      else (hi, lo));
          (hi, lo) = (if lo \<ge> base then
                        (let n = lo div base in (hi + n, lo - n * base))
                      else (hi, lo))
      in (hi, lo))"

definition daysSinceEpoch :: "int \<Rightarrow> int" where
  "daysSinceEpoch year =
     (let y = (year - absoluteZeroYear) mod 2 ^ 64;
          n = y div 400;
          y = y - 400 * n;
          d = daysPer400Years * n;
          n = y div 100;
          y = y - 100 * n;
          d = d + daysPer100Years * n;
          n = y div 4;
          y = y - 4 * n;
          d = d + daysPer4Years * n;
          n = y;
          d = d + 365 * n
      in d)"

definition Date :: "int \<Rightarrow> int \<Rightarrow> int \<Rightarrow> int \<Rightarrow> int \<Rightarrow> int \<Rightarrow> int \<Rightarrow> Location \<Rightarrow> Time" where
  "Date year month day hour minute sec ns l =
     (let m = month - 1;
          (year, m) = norm year m 12;
          month = m + 1;
          (sec, ns) = norm sec ns 1000000000;
          (minute, sec) = norm minute sec 60;
          (hour, minute) = norm hour minute 60;
          (day, hour) = norm day hour 24;
          d = daysSinceEpoch year;
          d = d + daysBefore ! nat (month - 1);
          d = (if isLeap year \<and> month \<ge> 3 then d + 1 else d);
          d = d + (day - 1);
          a = (d * secondsPerDay + (hour * 3600 + minute * 60 + sec)) mod 2 ^ 64;
          unix = wrapInt64 (a + (absoluteToInternal + internalToUnix));
          unix = wrapInt64 (unix - l)
      in \<lparr>ext = wrapInt64 (unix + unixToInternal), nsec = ns, loc = l\<rparr>)"

text \<open>\<open>Time.AddDate\<close> rebuilds the time from its civil fields with \<open>Date\<close>.\<close>

definition AddDate :: "Time \<Rightarrow> int \<Rightarrow> int \<Rightarrow> int \<Rightarrow> Time" where
  "AddDate t years months days =
     Date (Year t + years) (Month t + months) (Day t + days)
          (Hour_of t) (Minute_of t) (Second_of t) (nsec t) (loc t)"

section \<open>The clip server\<close>

subsection \<open>parseUnixTimeOrDefault\<close>

text \<open>
  An absent (empty) parameter gives the default; anything else is parsed as a base-10
  int64 of Unix seconds. \<open>local\<close> is the location \<open>time.Local\<close> of the process.
\<close>

definition parseUnixTimeOrDefault :: "Location \<Rightarrow> string \<Rightarrow> Time \<Rightarrow> error + Time" where
  "parseUnixTimeOrDefault local unixTsStr defaultTime =
     (if length unixTsStr = 0 then Inr (In defaultTime local)
      else case ParseInt unixTsStr of
             Inl err \<Rightarrow> Inl err
           | Inr unixTs \<Rightarrow> Inr (In (Unix local unixTs) local))"

subsection \<open>listTargetDirectories\<close>

text \<open>
  The four \<open>for\<close> loops. Each carries the pair of the variables it assigns, \<open>result\<close>
  and \<open>fromTs\<close>; the bound \<open>toTs\<close> is read again at every test, as in the source.
\<close>

function yearLoop :: "int \<Rightarrow> Time \<Rightarrow> string list \<times> Time \<Rightarrow> string list \<times> Time" where
  "yearLoop year toTs (result, fromTs) =
     (if year < Year toTs
      then yearLoop (year + 1) toTs (result @ [Join [Itoa year]], AddDate fromTs 1 0 0)
      else (result, fromTs))"
  by pat_completeness auto
termination
  by (relation "measure (\<lambda>(year, toTs, r). nat (Year toTs - year))") auto

function monthLoop :: "int \<Rightarrow> Time \<Rightarrow> string list \<times> Time \<Rightarrow> string list \<times> Time" where
  "monthLoop month toTs (result, fromTs) =
     (if month < Month toTs
      then monthLoop (month + 1) toTs
             (result @ [Join [Sprintf_0d 4 (Year fromTs), Sprintf_0d 2 month]],
              AddDate fromTs 0 1 0)
      else (result, fromTs))"
  by pat_completeness auto
termination
  by (relation "measure (\<lambda>(month, toTs, r). nat (Month toTs - month))") auto

function dayLoop :: "int \<Rightarrow> Time \<Rightarrow> string list \<times> Time \<Rightarrow> string list \<times> Time" where
  "dayLoop day toTs (result, fromTs) =
     (if day < Day toTs
      then dayLoop (day + 1) toTs
             (result @ [Join [Sprintf_0d 4 (Year fromTs), Sprintf_0d 2 (Month fromTs),
                              Sprintf_0d 2 day]],
              AddDate fromTs 0 0 1)
      else (result, fromTs))"
  by pat_completeness auto
termination
  by (relation "measure (\<lambda>(day, toTs, r). nat (Day toTs - day))") auto

function hourLoop :: "int \<Rightarrow> Time \<Rightarrow> string list \<times> Time \<Rightarrow> string list \<times> Time" where
  "hourLoop hour toTs (result, fromTs) =
     (if hour < Hour_of toTs
      then hourLoop (hour + 1) toTs
             (result @ [Join [Sprintf_0d 4 (Year fromTs), Sprintf_0d 2 (Month fromTs),
                              Sprintf_0d 2 (Day fromTs), Sprintf_0d 2 hour]],
              Add fromTs Hour)
      else (result, fromTs))"
  by pat_completeness auto
termination
  by (relation "measure (\<lambda>(hour, toTs, r). nat (Hour_of toTs - hour))") auto

text \<open>
  The function calls itself on the stretch up to the start of the next year, month or day.
  The first argument bounds the depth of these calls: \<open>None\<close> means that the bound was
  too small, \<open>Some (Inl (Panic m))\<close> that \<open>log.Panic\<close> was reached, \<open>Some (Inr ds)\<close>
  that the list \<open>ds\<close> was returned. Each of the four \<open>if\<close> statements of the source is one
  \<open>case\<close>; it hands the variables \<open>result\<close> and \<open>fromTs\<close> to the next.
\<close>

fun listTargetDirectories :: "nat \<Rightarrow> Time \<Rightarrow> Time \<Rightarrow> (error + string list) option" where
  "listTargetDirectories 0 fromTs toTs = None"
| "listTargetDirectories (Suc depth) fromTs toTs =
     (let result = [] in
      case (if Year fromTs \<noteq> Year (Add toTs (- Nanosecond)) then
              (let nextFromTs = Date (Year fromTs + 1) January 1 0 0 0 0 (loc fromTs) in
               case listTargetDirectories depth fromTs nextFromTs of
                 None \<Rightarrow> None
               | Some (Inl p) \<Rightarrow> Some (Inl p)
               | Some (Inr r) \<Rightarrow>
                   Some (Inr (yearLoop (Year nextFromTs) toTs (result @ r, nextFromTs))))
            else Some (Inr (result, fromTs))) of
        None \<Rightarrow> None
      | Some (Inl p) \<Rightarrow> Some (Inl p)
      | Some (Inr (result, fromTs)) \<Rightarrow>
      case (if Month fromTs \<noteq> Month (Add toTs (- Nanosecond)) then
              if Month fromTs = December then
                Some (Inl (Panic ''fromTs.Month() must not be Descember''))
              else if Month fromTs > Month toTs then
                Some (Inl (Panic ''fromTs.Month() must not be larger than toTs''))
              else
                (let nextFromTs = Date (Year fromTs) (Month fromTs + 1) 1 0 0 0 0 (loc fromTs) in
                 case listTargetDirectories depth fromTs nextFromTs of
                   None \<Rightarrow> None
                 | Some (Inl p) \<Rightarrow> Some (Inl p)
                 | Some (Inr r) \<Rightarrow>
                     Some (Inr (monthLoop (Month nextFromTs) toTs (result @ r, nextFromTs))))
            else Some (Inr (result, fromTs))) of
        None \<Rightarrow> None
      | Some (Inl p) \<Rightarrow> Some (Inl p)
      | Some (Inr (result, fromTs)) \<Rightarrow>
      case (if Day fromTs \<noteq> Day (Add toTs (- Nanosecond)) then
              (let nextFromTs = Date (Year fromTs) (Month fromTs) (Day fromTs + 1) 0 0 0 0
                                     (loc fromTs) in
               case listTargetDirectories depth fromTs nextFromTs of
                 None \<Rightarrow> None
               | Some (Inl p) \<Rightarrow> Some (Inl p)
               | Some (Inr r) \<Rightarrow>
                   Some (Inr (dayLoop (Day nextFromTs) toTs (result @ r, nextFromTs))))
            else Some (Inr (result, fromTs))) of
        None \<Rightarrow> None
      | Some (Inl p) \<Rightarrow> Some (Inl p)
      | Some (Inr (result, fromTs)) \<Rightarrow>
          (if Hour_of fromTs \<noteq> Hour_of (Add toTs (- Nanosecond)) then
             Some (Inr (fst (hourLoop (Hour_of fromTs) toTs (result, fromTs))))
           else Some (Inr result)))"

subsection \<open>The handler of /list\<close>

text \<open>
  What the handler reads from outside: the process's location, the outcome of
  \<open>filepath.WalkDir\<close> on a root and \<open>filepath.Rel\<close>. A walk is the list of the calls
  \<open>WalkDir\<close> makes to its function argument, each with the path, the directory entry
  (\<open>None\<close> for Go's nil, handed over when the root cannot be read) and the error of reading it,
  together with the error \<open>WalkDir\<close> itself returns. The handler's function argument
  always returns nil, so the walk does not depend on it.
\<close>

datatype DirEntry = DirEntry (IsRegular: bool)

type_synonym walk = "(string \<times> DirEntry option \<times> error option) list \<times> error option"

record server_env =
  Local :: Location
  WalkDir :: "string \<Rightarrow> walk"
  Rel :: "string \<Rightarrow> string \<Rightarrow> error + string"

datatype body = ErrorText error | PlainText string | JsonArray "string list"

datatype response = Response (StatusCode: nat) (Body: body)

definition StatusBadRequest :: nat where "StatusBadRequest = 400"
definition StatusInternalServerError :: nat where "StatusInternalServerError = 500"
definition StatusOK :: nat where "StatusOK = 200"

text \<open>
  \<open>json.Marshal\<close> of a slice of strings. The encoder has no failing case for this type
  (bytes that are not UTF-8 are replaced), so the model returns the array itself.
\<close>

definition Marshal :: "string list \<Rightarrow> error + body" where
  "Marshal v = Inr (JsonArray v)"

text \<open>The function handed to \<open>WalkDir\<close>: it appends to \<open>result\<close> and returns nil.\<close>

definition walkFn ::
  "server_env \<Rightarrow> string \<Rightarrow> string list \<Rightarrow> string \<times> DirEntry option \<times> error option \<Rightarrow> string list"
where
  "walkFn env directory result call =
     (case call of (path, d, err) \<Rightarrow>
        (case d of
           None \<Rightarrow> result
         | Some d \<Rightarrow>
             if IsRegular d then
               (case Rel env directory path of
                  Inr rel \<Rightarrow> result @ [rel]
                | Inl err \<Rightarrow> result)
             else result))"

text \<open>
  The second half of the handler, from \<open>result := []string{}\<close> on: the walk over the
  directories of the range and the answer. The value \<open>WalkDir\<close> returns is dropped.
  A panic of \<open>listTargetDirectories\<close> leaves the handler; no answer is written then.
\<close>

definition serveList ::
  "nat \<Rightarrow> server_env \<Rightarrow> string \<Rightarrow> Time \<Rightarrow> Time \<Rightarrow> (error + response) option"
where
  "serveList depth env directory fromTs toTs =
     (case listTargetDirectories depth fromTs toTs of
        None \<Rightarrow> None
      | Some (Inl p) \<Rightarrow> Some (Inl p)
      | Some (Inr dirs) \<Rightarrow>
          (let result =
                 foldl (\<lambda>result d.
                          foldl (walkFn env directory) result
                            (fst (WalkDir env (Join [directory, d]))))
                       [] dirs
           in case Marshal result of
                Inl err \<Rightarrow> Some (Inr (Response StatusInternalServerError (ErrorText err)))
              | Inr resultJson \<Rightarrow> Some (Inr (Response StatusOK resultJson))))"

text \<open>
  The handler: \<open>now\<close> is \<open>time.Now()\<close>, \<open>qFrom\<close> and \<open>qTo\<close> are what
  \<open>r.URL.Query().Get\<close> returns for \<open>from\<close> and \<open>to\<close> (the empty string for an absent
  parameter).
\<close>

definition listHandler ::
  "nat \<Rightarrow> server_env \<Rightarrow> string \<Rightarrow> Time \<Rightarrow> string \<Rightarrow> string \<Rightarrow> (error + response) option"
where
  "listHandler depth env directory now qFrom qTo =
     (case parseUnixTimeOrDefault (Local env) qFrom (Add now (- 24 * Hour)) of
        Inl err \<Rightarrow> Some (Inr (Response StatusBadRequest (ErrorText err)))
      | Inr fromTs \<Rightarrow>
          (case parseUnixTimeOrDefault (Local env) qTo (Add fromTs (24 * Hour)) of
             Inl err \<Rightarrow> Some (Inr (Response StatusBadRequest (ErrorText err)))
           | Inr toTs \<Rightarrow>
               if \<not> Before fromTs toTs then
                 Some (Inr (Response StatusBadRequest (PlainText ''from should be less than to'')))
               else serveList depth env directory fromTs toTs))"

section \<open>The event consumer\<close>

subsection \<open>Events\<close>

text \<open>
  The structs of the program. A Go map is an association list: \<open>map_of\<close> looks a key up,
  and the order of the list stands for the order in which one run iterates over the map,
  which Go leaves open. A \<open>json.RawMessage\<close> is the string of its bytes.
\<close>

record RelationUpdate =
  rel_Type :: string
  rel_Subject :: string
  rel_Object :: string

definition ResourceUpdateEventTypeDoorbellChime :: string where
  "ResourceUpdateEventTypeDoorbellChime = ''sdm.devices.events.DoorbellChime.Chime''"
definition ResourceUpdateEventTypeCameraMotion :: string where
  "ResourceUpdateEventTypeCameraMotion = ''sdm.devices.events.CameraMotion.Motion''"
definition ResourceUpdateEventTypeCameraPerson :: string where
  "ResourceUpdateEventTypeCameraPerson = ''sdm.devices.events.CameraPerson.Person''"
definition ResourceUpdateEventTypeCameraClipPreview :: string where
  "ResourceUpdateEventTypeCameraClipPreview = ''sdm.devices.events.CameraClipPreview.ClipPreview''"

record ResourceUpdateEventDoorbellChime =
  chime_EventSessionId :: string
  chime_EventId :: string

record ResourceUpdateEventCameraMotion =
  motion_EventSessionId :: string
  motion_EventId :: string

record ResourceUpdateEventCameraPerson =
  person_EventSessionId :: string
  person_EventId :: string

record ResourceUpdateEventCameraClipPreview =
  clip_EventSessionId :: string
  PreviewUrl :: string

record ResourceUpdate =
  Name :: string
  Traits :: "(string \<times> string) list"
  Events :: "(string \<times> string) list"

record DeviceEvent =
  EventId :: string
  Timestamp :: string
  RelationUpdate :: "RelationUpdate option"
  ResourceUpdate :: "ResourceUpdate option"
  ResourceGroup :: "string list"
  EventThreadId :: "string option"
  EventThreadState :: "string option"
  UserId :: string

record NestDoorbellEventProcessor =
  doorbellDeviceName :: string
  outputDir :: string
  outputFileNameFormat :: string

subsection \<open>Formatting\<close>

text \<open>\<open>strings.Join\<close>.\<close>

fun strings_Join :: "string list \<Rightarrow> string \<Rightarrow> string" where
  "strings_Join [] sep = []"
| "strings_Join [x] sep = x"
| "strings_Join (x # y # ys) sep = x @ sep @ strings_Join (y # ys) sep"

text \<open>
  \<open>fmt.Sprintf\<close> for a format whose only verb is \<open>%v\<close> and whose arguments are strings:
  each \<open>%v\<close> is replaced by the next argument.
\<close>

fun Sprintf_v :: "string \<Rightarrow> string list \<Rightarrow> string" where
  "Sprintf_v [] args = []"
| "Sprintf_v [c] args = [c]"
| "Sprintf_v (c # d # cs) args =
     (if c = CHR ''%'' \<and> d = CHR ''v'' then
        (case args of
           [] \<Rightarrow> ''%!v(MISSING)'' @ Sprintf_v cs []
         | a # as \<Rightarrow> a @ Sprintf_v cs as)
      else c # Sprintf_v (d # cs) args)"

definition newlineTab :: string where
  "newlineTab = [CHR 0x0A, CHR 0x09]"

definition DeviceEvent_format :: "DeviceEvent \<Rightarrow> string" where
  "DeviceEvent_format e =
     Sprintf_v (strings_Join [''DeviceEvent'', ''* UserId: %v'', ''* EventId: %v'',
                              ''* Timestamp: %v''] newlineTab)
               [UserId e, EventId e, Timestamp e]"

text \<open>The \<open>format\<close> methods take a pointer; \<open>None\<close> is the nil pointer.\<close>

definition DoorbellChime_format :: "ResourceUpdateEventDoorbellChime option \<Rightarrow> string" where
  "DoorbellChime_format p =
     (case p of
        None \<Rightarrow> ''DoorbellChimeEvent(nil)''
      | Some p \<Rightarrow> Sprintf_v ''DoorbellChimeEvent(EventSessionId: %v, EventId: %v)''
                    [chime_EventSessionId p, chime_EventId p])"

definition CameraMotion_format :: "ResourceUpdateEventCameraMotion option \<Rightarrow> string" where
  "CameraMotion_format p =
     (case p of
        None \<Rightarrow> ''CameraMotionEvent(nil)''
      | Some p \<Rightarrow> Sprintf_v ''CameraMotionEvent(EventSessionId: %v, EventId: %v)''
                    [motion_EventSessionId p, motion_EventId p])"

definition CameraPerson_format :: "ResourceUpdateEventCameraPerson option \<Rightarrow> string" where
  "CameraPerson_format p =
     (case p of
        None \<Rightarrow> ''CameraPersonEvent(nil)''
      | Some p \<Rightarrow> Sprintf_v ''CameraPersonEvent(EventSessionId: %v, EventId: %v)''
                    [person_EventSessionId p, person_EventId p])"

definition CameraClipPreview_format :: "ResourceUpdateEventCameraClipPreview option \<Rightarrow> string" where
  "CameraClipPreview_format p =
     (case p of
        None \<Rightarrow> ''CameraClipPreview(nil)''
      | Some p \<Rightarrow> Sprintf_v ''CameraClipPreview(EventSessionId: %v, PreviewUrl: %v)''
                    [clip_EventSessionId p, PreviewUrl p])"

subsection \<open>The world outside the program\<close>

text \<open>
  The collaborators the program calls are functions of an environment: the JSON decoder
  at each of the types it is used at, the HTTP client, the MIME table and the three
  file operations that can fail. An \<open>error option\<close> is Go's \<open>error\<close>, \<open>None\<close>
  being nil.
\<close>

record HttpResponse =
  ContentType :: string
  ResponseBody :: string

record consumer_env =
  UnmarshalDeviceEvent :: "string \<Rightarrow> error + DeviceEvent"
  UnmarshalDoorbellChime :: "string \<Rightarrow> error + ResourceUpdateEventDoorbellChime"
  UnmarshalCameraMotion :: "string \<Rightarrow> error + ResourceUpdateEventCameraMotion"
  UnmarshalCameraPerson :: "string \<Rightarrow> error + ResourceUpdateEventCameraPerson"
  UnmarshalCameraClipPreview :: "string \<Rightarrow> error + ResourceUpdateEventCameraClipPreview"
  clientGet :: "string \<Rightarrow> error + HttpResponse"
  ExtensionsByType :: "string \<Rightarrow> error + string list"
  MkdirAll :: "string \<Rightarrow> error option"
  Create :: "string \<Rightarrow> error option"
  Copy :: "string \<Rightarrow> string \<Rightarrow> error + int"

text \<open>
  The state the program changes or observes: what \<open>os.Stat\<close> answers for each path,
  what \<open>time.Now().Format\<close> gives for a layout at this moment, and the effects performed so
  far, oldest first. The arguments of a print are kept as they are passed, not rendered.
\<close>

datatype stat_result = Exists | NotExist | StatError

datatype arg =
    ArgString string
  | ArgInt int
  | ArgError "error option"
  | ArgBytes string
  | ArgEvent DeviceEvent

datatype effect =
    LogPrintf string "arg list"
  | FmtPrintf string "arg list"
  | HttpGet string
  | BodyClose
  | OsStat string
  | OsMkdirAll string
  | OsCreate string
  | IoCopy string
  | FileClose string
  | Ack

record world =
  fsys :: "string \<Rightarrow> stat_result"
  nowFormat :: "string \<Rightarrow> string"
  effects :: "effect list"

definition emit :: "effect \<Rightarrow> world \<Rightarrow> world" where
  "emit e w = w\<lparr>effects := effects w @ [e]\<rparr>"

definition created :: "string \<Rightarrow> world \<Rightarrow> world" where
  "created path w = w\<lparr>fsys := (fsys w)(path := Exists)\<rparr>"

subsection \<open>downloadAndSaveCameraClipPreview\<close>

text \<open>The file name the loop tries at the count \<open>i\<close>.\<close>

definition clipFileName ::
  "NestDoorbellEventProcessor \<Rightarrow> string \<Rightarrow> string \<Rightarrow> string \<Rightarrow> nat \<Rightarrow> string"
where
  "clipFileName p fileNameFormat eventSessionId extension i =
     Join [outputDir p,
           ReplaceAll fileNameFormat ''{eventSessionId}''
             (eventSessionId @ ''_'' @ Itoa (int i)) @ extension]"

text \<open>
  The loop that looks for a free name. It stops at the first name for which \<open>os.Stat\<close>
  reports that nothing exists; nothing bounds the number of rounds, so the loop is a partial
  function and \<open>None\<close> stands for a run that does not end.
\<close>

partial_function (option) probeFileName ::
  "(nat \<Rightarrow> string) \<Rightarrow> nat \<Rightarrow> world \<Rightarrow> (string \<times> world) option"
where
  "probeFileName fileNameOf i w =
     (if fsys w (fileNameOf i) = NotExist
      then Some (fileNameOf i, emit (OsStat (fileNameOf i)) w)
      else probeFileName fileNameOf (i + 1)
             (emit (FmtPrintf ''%v - %v\<newline>'' [ArgInt (int (i + 1)), ArgString (fileNameOf i)])
                (emit (OsStat (fileNameOf i)) w)))"

text \<open>
  The two deferred calls run when the function returns, the later one first. The result
  is the error returned (\<open>None\<close> for nil) and the world afterwards.
\<close>

definition downloadAndSaveCameraClipPreview ::
  "consumer_env \<Rightarrow> NestDoorbellEventProcessor \<Rightarrow> ResourceUpdateEventCameraClipPreview \<Rightarrow>
   world \<Rightarrow> (error option \<times> world) option"
where
  "downloadAndSaveCameraClipPreview env p clipPreview w =
     (let w = emit (HttpGet (PreviewUrl clipPreview)) w in
      case clientGet env (PreviewUrl clipPreview) of
        Inl err \<Rightarrow> Some (Some err, w)
      | Inr resp \<Rightarrow>
          (let (extensions, w) =
                 (case ExtensionsByType env (ContentType resp) of
                    Inl err \<Rightarrow>
                      ([''.video.unknown''],
                       emit (FmtPrintf ''Failed to get extension type from content type(%v): err(%v)''
                               [ArgString (ContentType resp), ArgError (Some err)]) w)
                  | Inr extensions \<Rightarrow>
                      if length extensions = 0 then
                        ([''.video.unknown''],
                         emit (FmtPrintf ''Failed to get extension type from content type(%v): err(%v)''
                                 [ArgString (ContentType resp), ArgError None]) w)
                      else (extensions, w))
           in case extensions of
                [] \<Rightarrow> Some (Some (Panic ''index out of range''), emit BodyClose w)
              | extension # _ \<Rightarrow>
           (let fileNameFormat = nowFormat w (outputFileNameFormat p) in
            case probeFileName
                   (clipFileName p fileNameFormat (clip_EventSessionId clipPreview) extension) 0 w of
              None \<Rightarrow> None
            | Some (fileName, w) \<Rightarrow>
           (let outputDir = Dir fileName;
                w = emit (OsStat outputDir) w
            in case (if fsys w outputDir = NotExist then
                       (case MkdirAll env outputDir of
                          Some err \<Rightarrow> (Some err, emit (OsMkdirAll outputDir) w)
                        | None \<Rightarrow> (None, created outputDir (emit (OsMkdirAll outputDir) w)))
                     else (None, w)) of
                 (Some err, w) \<Rightarrow> Some (Some err, emit BodyClose w)
               | (None, w) \<Rightarrow>
                   (let w = emit (OsCreate fileName) w in
                    case Create env fileName of
                      Some err \<Rightarrow> Some (Some err, emit BodyClose w)
                    | None \<Rightarrow>
                        (let w = emit (IoCopy fileName) (created fileName w) in
                         case Copy env fileName (ResponseBody resp) of
                           Inl err \<Rightarrow>
                             Some (Some err, emit BodyClose (emit (FileClose fileName) w))
                         | Inr numWritten \<Rightarrow>
                             Some (None,
                                   emit BodyClose (emit (FileClose fileName)
                                     (emit (FmtPrintf
                                              ''Wrote clipPreview for eventSession %v as %v (bytes: %v)\<newline>''
                                              [ArgString (clip_EventSessionId clipPreview),
                                               ArgString extension, ArgInt numWritten])
                                        w)))))))))"

subsection \<open>Process and the handlers it chooses between\<close>

definition processChimeEvent ::
  "consumer_env \<Rightarrow> NestDoorbellEventProcessor \<Rightarrow> ResourceUpdateEventDoorbellChime \<Rightarrow>
   ResourceUpdateEventCameraClipPreview option \<Rightarrow> world \<Rightarrow> (error option \<times> world) option"
where
  "processChimeEvent env p chime clipPreview w =
     (let w = emit (LogPrintf ''processChimeEvent is not implemented yet: %v, %v''
                      [ArgString (DoorbellChime_format (Some chime)),
                       ArgString (CameraClipPreview_format clipPreview)]) w
      in case clipPreview of
           None \<Rightarrow> Some (None, w)
         | Some clip \<Rightarrow>
             (case downloadAndSaveCameraClipPreview env p clip w of
                None \<Rightarrow> None
              | Some (Some err, w) \<Rightarrow> Some (Some err, w)
              | Some (None, w) \<Rightarrow> Some (None, w)))"

definition processMotionEvent ::
  "consumer_env \<Rightarrow> NestDoorbellEventProcessor \<Rightarrow> ResourceUpdateEventCameraMotion \<Rightarrow>
   ResourceUpdateEventCameraClipPreview option \<Rightarrow> world \<Rightarrow> (error option \<times> world) option"
where
  "processMotionEvent env p motion clipPreview w =
     (let w = emit (LogPrintf ''processMotionEvent is not implemented yet: %v, %v''
                      [ArgString (CameraMotion_format (Some motion)),
                       ArgString (CameraClipPreview_format clipPreview)]) w
      in case clipPreview of
           None \<Rightarrow> Some (None, w)
         | Some clip \<Rightarrow>
             (case downloadAndSaveCameraClipPreview env p clip w of
                None \<Rightarrow> None
              | Some (Some err, w) \<Rightarrow> Some (Some err, w)
              | Some (None, w) \<Rightarrow> Some (None, w)))"

definition processPersonEvent ::
  "consumer_env \<Rightarrow> NestDoorbellEventProcessor \<Rightarrow> ResourceUpdateEventCameraPerson \<Rightarrow>
   ResourceUpdateEventCameraClipPreview option \<Rightarrow> world \<Rightarrow> (error option \<times> world) option"
where
  "processPersonEvent env p person clipPreview w =
     (let w = emit (LogPrintf ''processPersonEvent is not implemented yet: %v, %v''
                      [ArgString (CameraPerson_format (Some person)),
                       ArgString (CameraClipPreview_format clipPreview)]) w
      in case clipPreview of
           None \<Rightarrow> Some (None, w)
         | Some clip \<Rightarrow>
             (case downloadAndSaveCameraClipPreview env p clip w of
                None \<Rightarrow> None
              | Some (Some err, w) \<Rightarrow> Some (Some err, w)
              | Some (None, w) \<Rightarrow> Some (None, w)))"

definition processRelationUpdateEvent ::
  "consumer_env \<Rightarrow> NestDoorbellEventProcessor \<Rightarrow> DeviceEvent \<Rightarrow> world \<Rightarrow>
   (error option \<times> world) option"
where
  "processRelationUpdateEvent env p event w =
     Some (None, emit (LogPrintf ''processRelationUpdateEvent is not implemented yet: %v''
                         [ArgEvent event]) w)"

text \<open>
  The clip preview that accompanies an event: present in the map and decoded without
  error, or nil.
\<close>

definition decodeClipPreview ::
  "consumer_env \<Rightarrow> ResourceUpdate \<Rightarrow> ResourceUpdateEventCameraClipPreview option"
where
  "decodeClipPreview env resourceUpdate =
     (case map_of (Events resourceUpdate) ResourceUpdateEventTypeCameraClipPreview of
        None \<Rightarrow> None
      | Some raw \<Rightarrow>
          (case UnmarshalCameraClipPreview env raw of
             Inl err \<Rightarrow> None
           | Inr clipPreviewEvent \<Rightarrow> Some clipPreviewEvent))"

definition processResourceUpdateEvent ::
  "consumer_env \<Rightarrow> NestDoorbellEventProcessor \<Rightarrow> DeviceEvent \<Rightarrow> world \<Rightarrow>
   (error option \<times> world) option"
where
  "processResourceUpdateEvent env p event w =
     (case ResourceUpdate event of
        None \<Rightarrow> Some (Some (Panic ''nil pointer dereference''), w)
      | Some resourceUpdate \<Rightarrow>
     (case map_of (Events resourceUpdate) ResourceUpdateEventTypeDoorbellChime of
        Some raw \<Rightarrow>
          (case UnmarshalDoorbellChime env raw of
             Inl err \<Rightarrow> Some (Some err, w)
           | Inr chimeEvent \<Rightarrow>
               processChimeEvent env p chimeEvent (decodeClipPreview env resourceUpdate) w)
      | None \<Rightarrow>
     (case map_of (Events resourceUpdate) ResourceUpdateEventTypeCameraMotion of
        Some raw \<Rightarrow>
          (case UnmarshalCameraMotion env raw of
             Inl err \<Rightarrow> Some (Some err, w)
           | Inr motionEvent \<Rightarrow>
               processMotionEvent env p motionEvent (decodeClipPreview env resourceUpdate) w)
      | None \<Rightarrow>
     (case map_of (Events resourceUpdate) ResourceUpdateEventTypeCameraPerson of
        Some raw \<Rightarrow>
          (case UnmarshalCameraPerson env raw of
             Inl err \<Rightarrow> Some (Some err, w)
           | Inr personEvent \<Rightarrow>
               processPersonEvent env p personEvent (decodeClipPreview env resourceUpdate) w)
      | None \<Rightarrow>
          (let events = map fst (Events resourceUpdate);
               traits = map fst (Traits resourceUpdate)
           in Some (Some (ErrorString
                 (Sprintf_v
                    (''unsupported resource update event:'' @ newlineTab @ ''* user id(%v)'' @
                     newlineTab @ ''* events(%v)'' @ newlineTab @ ''* traits(%v)'')
                    [UserId event, strings_Join events '','', strings_Join traits '',''])),
                 w))))))"

definition Process ::
  "consumer_env \<Rightarrow> NestDoorbellEventProcessor \<Rightarrow> DeviceEvent \<Rightarrow> world \<Rightarrow>
   (error option \<times> world) option"
where
  "Process env p event w =
     (if ResourceUpdate event \<noteq> None then processResourceUpdateEvent env p event w
      else if RelationUpdate event \<noteq> None then processRelationUpdateEvent env p event w
      else Some (Some (ErrorString (''Unsupported event: '' @ DeviceEvent_format event)), w))"

subsection \<open>The subscription callback\<close>

text \<open>
  The function handed to \<open>sub.Receive\<close>, for a message with the bytes \<open>data\<close>. Its first
  statement defers \<open>m.Ack()\<close>, so the acknowledgement is the last thing the function does,
  on every way out of it, a panic included (the panic then goes on to the caller). A run of
  the body that does not end never reaches it.
\<close>

definition isPanic :: "error \<Rightarrow> bool" where
  "isPanic e = (case e of Panic m \<Rightarrow> True | _ \<Rightarrow> False)"

definition receiveCallback ::
  "consumer_env \<Rightarrow> NestDoorbellEventProcessor \<Rightarrow> string \<Rightarrow> world \<Rightarrow>
   (error option \<times> world) option"
where
  "receiveCallback env p data w =
     (case (case UnmarshalDeviceEvent env data of
              Inl err \<Rightarrow>
                Some (None, emit (LogPrintf (''Failed to unmarshal message: %v'' @ newlineTab @ ''%v'')
                                    [ArgError (Some err), ArgBytes data]) w)
            | Inr event \<Rightarrow>
                (case Process env p event w of
                   None \<Rightarrow> None
                 | Some (Some err, w) \<Rightarrow>
                     if isPanic err then Some (Some err, w)
                     else Some (None, emit (LogPrintf (''Failed to process message: %v'' @ newlineTab @ ''%v'')
                                              [ArgError (Some err), ArgBytes data]) w)
                 | Some (None, w) \<Rightarrow> Some (None, w))) of
        None \<Rightarrow> None
      | Some (panic, w) \<Rightarrow> Some (panic, emit Ack w))"

section \<open>Observations on effects and results\<close>

text \<open>
  What the statements below say about a run is read off the list of effects:
  \<open>newEffects w w'\<close> are the effects a run from \<open>w\<close> to \<open>w'\<close> added, \<open>grows P w w'\<close>
  says that \<open>w'\<close> only added effects to those of \<open>w\<close>, each satisfying \<open>P\<close>, and
  \<open>createdFiles\<close> lists the paths handed to \<open>os.Create\<close>.
\<close>

fun isLog :: "effect \<Rightarrow> bool" where
  "isLog (LogPrintf f args) = True"
| "isLog e = False"

fun isCreate :: "effect \<Rightarrow> bool" where
  "isCreate (OsCreate f) = True"
| "isCreate e = False"


definition newEffects :: "world \<Rightarrow> world \<Rightarrow> effect list" where
  "newEffects w w' = drop (length (effects w)) (effects w')"

definition grows :: "(effect \<Rightarrow> bool) \<Rightarrow> world \<Rightarrow> world \<Rightarrow> bool" where
  "grows P w w' =
     (take (length (effects w)) (effects w') = effects w \<and> list_all P (newEffects w w'))"

text \<open>
  \<open>keeps x x'\<close>: a run that gave the result \<open>x\<close> gives the same result \<open>x'\<close> when it
  is allowed to go deeper; \<open>None\<close>, the run that was cut short, promises nothing.
\<close>

definition keeps :: "'a option \<Rightarrow> 'a option \<Rightarrow> bool" where
  "keeps x x' = (x = None \<or> x' = x)"

text \<open>The status code of the answer a handler run wrote, if it wrote one.\<close>

definition statusOf :: "(error + response) option \<Rightarrow> nat option" where
  "statusOf r = (case r of Some (Inr resp) \<Rightarrow> Some (StatusCode resp) | _ \<Rightarrow> None)"

text \<open>
  The path of the hour bucket an instant falls in, as the loops above write it and as the
  consumer's default layout \<open>2006/01/02/15\<close> stores it.
\<close>

definition hourBucket :: "Time \<Rightarrow> string" where
  "hourBucket t =
     Join [Sprintf_0d 4 (Year t), Sprintf_0d 2 (Month t), Sprintf_0d 2 (Day t),
           Sprintf_0d 2 (Hour_of t)]"

text \<open>
  A string that is written as an integer: an optional sign and at least one decimal
  digit, nothing else.
\<close>

definition isIntegerLiteral :: "string \<Rightarrow> bool" where
  "isIntegerLiteral s =
     (case s of
        [] \<Rightarrow> False
      | c # cs \<Rightarrow>
          if c = CHR ''+'' \<or> c = CHR ''-'' then cs \<noteq> [] \<and> list_all isDigit cs
          else list_all isDigit (c # cs))"

text \<open>The Unix seconds for which \<open>time.Unix\<close> has a time value: the sum with the epoch
  distance stays an int64.\<close>

definition unixRepresentable :: "int \<Rightarrow> bool" where
  "unixRepresentable sec = (- (2 ^ 63) \<le> sec \<and> sec + unixToInternal < 2 ^ 63)"

section \<open>Example inputs\<close>

text \<open>
  A server whose clock is at UTC. The walk of \<open>clips/2023/05/30/10\<close> meets a regular
  file and then a subdirectory that cannot be read; every other root cannot be read at all.
\<close>

definition exampleWalk :: "string \<Rightarrow> walk" where
  "exampleWalk root =
     (if root = ''clips/2023/05/30/10'' then
        ([(root, Some (DirEntry False), None),
          (root @ ''/a_0.mp4'', Some (DirEntry True), None),
          (root @ ''/sub'', Some (DirEntry False), None),
          (root @ ''/sub'', Some (DirEntry False), Some (LibError ''permission denied''))],
         None)
      else ([(root, None, Some (LibError ''input/output error''))],
            Some (LibError ''input/output error'')))"

definition exampleServerEnv :: server_env where
  "exampleServerEnv =
     \<lparr>Local = 0, WalkDir = exampleWalk,
      Rel = (\<lambda>base path. Inr (drop (length base + 1) path))\<rparr>"

definition exampleNow :: Time where
  "exampleNow = Date 2023 5 30 12 30 0 0 0"

text \<open>
  A consumer with the default layout of file names, a chime event that comes with a clip
  preview, collaborators that all succeed, and an output directory that is still empty.
  \<open>exampleWorld1\<close> is that world after the clip was saved once.
\<close>

definition exampleProcessor :: NestDoorbellEventProcessor where
  "exampleProcessor =
     \<lparr>doorbellDeviceName = ''doorbell'', outputDir = ''output'',
      outputFileNameFormat = ''2006/01/02/15/{eventSessionId}''\<rparr>"

definition exampleClip :: ResourceUpdateEventCameraClipPreview where
  "exampleClip = \<lparr>clip_EventSessionId = ''S1'', PreviewUrl = ''https://clip''\<rparr>"

definition exampleChime :: ResourceUpdateEventDoorbellChime where
  "exampleChime = \<lparr>chime_EventSessionId = ''S1'', chime_EventId = ''E1''\<rparr>"

definition exampleEvent :: DeviceEvent where
  "exampleEvent =
     \<lparr>EventId = ''ev'', Timestamp = ''2023-05-30T10:15:00Z'', RelationUpdate = None,
      ResourceUpdate = Some \<lparr>Name = ''enterprises/p/devices/d'', Traits = [],
        Events = [(ResourceUpdateEventTypeDoorbellChime, ''chime''),
                  (ResourceUpdateEventTypeCameraClipPreview, ''clip'')]\<rparr>,
      ResourceGroup = [], EventThreadId = None, EventThreadState = None, UserId = ''user''\<rparr>"

text \<open>
  Four more events: one with neither update, one whose resource update has no event
  the program knows, one with all three known events and a relation update as well, and
  events with fewer of them.
\<close>

definition exampleEmptyEvent :: DeviceEvent where
  "exampleEmptyEvent = exampleEvent\<lparr>ResourceUpdate := None\<rparr>"

definition exampleSoundUpdate :: ResourceUpdate where
  "exampleSoundUpdate =
     \<lparr>Name = ''enterprises/p/devices/d'',
      Traits = [(''sdm.devices.traits.Info'', ''{}'')],
      Events = [(''sdm.devices.events.CameraSound.Sound'', ''{}''),
                (ResourceUpdateEventTypeCameraClipPreview, ''clip'')]\<rparr>"

definition exampleSoundEvent :: DeviceEvent where
  "exampleSoundEvent = exampleEvent\<lparr>ResourceUpdate := Some exampleSoundUpdate\<rparr>"

definition exampleRelation :: RelationUpdate where
  "exampleRelation =
     \<lparr>rel_Type = ''CREATED'', rel_Subject = ''enterprises/p/structures/s'',
      rel_Object = ''enterprises/p/devices/d''\<rparr>"

definition exampleRelationEvent :: DeviceEvent where
  "exampleRelationEvent = exampleEmptyEvent\<lparr>RelationUpdate := Some exampleRelation\<rparr>"

definition exampleAllUpdate :: ResourceUpdate where
  "exampleAllUpdate =
     \<lparr>Name = ''enterprises/p/devices/d'', Traits = [],
      Events = [(ResourceUpdateEventTypeCameraPerson, ''person''),
                (ResourceUpdateEventTypeCameraMotion, ''motion''),
                (ResourceUpdateEventTypeDoorbellChime, ''chime'')]\<rparr>"

definition exampleAllEvent :: DeviceEvent where
  "exampleAllEvent =
     exampleEvent\<lparr>ResourceUpdate := Some exampleAllUpdate,
                    RelationUpdate := Some exampleRelation\<rparr>"

definition exampleMotionPersonUpdate :: ResourceUpdate where
  "exampleMotionPersonUpdate =
     exampleAllUpdate\<lparr>Events := [(ResourceUpdateEventTypeCameraPerson, ''person''),
                                  (ResourceUpdateEventTypeCameraMotion, ''motion'')]\<rparr>"

definition examplePersonUpdate :: ResourceUpdate where
  "examplePersonUpdate =
     exampleAllUpdate\<lparr>Events := [(ResourceUpdateEventTypeCameraPerson, ''person'')]\<rparr>"

definition exampleMotion :: ResourceUpdateEventCameraMotion where
  "exampleMotion = \<lparr>motion_EventSessionId = ''S2'', motion_EventId = ''E2''\<rparr>"

definition examplePerson :: ResourceUpdateEventCameraPerson where
  "examplePerson = \<lparr>person_EventSessionId = ''S3'', person_EventId = ''E3''\<rparr>"

definition exampleConsumerEnv :: consumer_env where
  "exampleConsumerEnv =
     \<lparr>UnmarshalDeviceEvent =
        (\<lambda>data. if data = ''event'' then Inr exampleEvent
                 else if data = ''empty'' then Inr exampleEmptyEvent
                 else Inl (LibError ''invalid character'')),
      UnmarshalDoorbellChime = (\<lambda>raw. Inr exampleChime),
      UnmarshalCameraMotion = (\<lambda>raw. Inr exampleMotion),
      UnmarshalCameraPerson = (\<lambda>raw. Inr examplePerson),
      UnmarshalCameraClipPreview = (\<lambda>raw. Inr exampleClip),
      clientGet = (\<lambda>url. Inr \<lparr>ContentType = ''video/mp4'', ResponseBody = ''clip bytes''\<rparr>),
      ExtensionsByType = (\<lambda>t. Inr [''.mp4'']),
      MkdirAll = (\<lambda>path. None),
      Create = (\<lambda>path. None),
      Copy = (\<lambda>path content. Inr (int (length content)))\<rparr>"

definition exampleWorld :: world where
  "exampleWorld =
     \<lparr>fsys = (\<lambda>path. NotExist),
      nowFormat = (\<lambda>layout. ''2023/05/30/10/{eventSessionId}''),
      effects = []\<rparr>"

definition exampleName :: "nat \<Rightarrow> string" where
  "exampleName = clipFileName exampleProcessor ''2023/05/30/10/{eventSessionId}'' ''S1'' ''.mp4''"

definition exampleWorld1 :: world where
  "exampleWorld1 =
     \<lparr>fsys = (\<lambda>path. NotExist)(''output/2023/05/30/10'' := Exists,
                                ''output/2023/05/30/10/S1_0.mp4'' := Exists),
      nowFormat = (\<lambda>layout. ''2023/05/30/10/{eventSessionId}''),
      effects =
        [HttpGet ''https://clip'',
         OsStat ''output/2023/05/30/10/S1_0.mp4'',
         OsStat ''output/2023/05/30/10'',
         OsMkdirAll ''output/2023/05/30/10'',
         OsCreate ''output/2023/05/30/10/S1_0.mp4'',
         IoCopy ''output/2023/05/30/10/S1_0.mp4'',
         FmtPrintf ''Wrote clipPreview for eventSession %v as %v (bytes: %v)\<newline>''
           [ArgString ''S1'', ArgString ''.mp4'', ArgInt 10],
         FileClose ''output/2023/05/30/10/S1_0.mp4'',
         BodyClose]\<rparr>"


definition exampleChimeLog :: effect where
  "exampleChimeLog =
     LogPrintf ''processChimeEvent is not implemented yet: %v, %v''
       [ArgString ''DoorbellChimeEvent(EventSessionId: S1, EventId: E1)'',
        ArgString ''CameraClipPreview(EventSessionId: S1, PreviewUrl: https://clip)'']"

definition exampleWorldAcked :: world where
  "exampleWorldAcked =
     exampleWorld1\<lparr>effects := exampleChimeLog # effects exampleWorld1 @ [Ack]\<rparr>"

definition exampleBlockedWorld :: world where
  "exampleBlockedWorld = exampleWorld\<lparr>fsys := (\<lambda>path. StatError)\<rparr>"

section \<open>Properties\<close>

subsection \<open>Effects only accumulate\<close>

lemma grows_iff: "grows P w w' = (\<exists>mid. effects w' = effects w @ mid \<and> list_all P mid)"
  unfolding grows_def newEffects_def
  by (metis append_eq_conv_conj)

lemma grows_refl: "grows P w w"
  by (simp add: grows_def newEffects_def)

lemma grows_trans: "grows P w w1 \<Longrightarrow> grows P w1 w2 \<Longrightarrow> grows P w w2"
  by (auto simp: grows_iff)

lemma grows_emit: "grows P w w1 \<Longrightarrow> P e \<Longrightarrow> grows P w (emit e w1)"
  by (auto simp: grows_iff emit_def)

lemma grows_created: "grows P w w1 \<Longrightarrow> grows P w (created f w1)"
  by (auto simp: grows_iff created_def)

lemma grows_weaken: "grows P w w' \<Longrightarrow> (\<And>e. P e \<Longrightarrow> Q e) \<Longrightarrow> grows Q w w'"
  by (auto simp: grows_iff list_all_iff)

lemma fsys_emit [simp]: "fsys (emit e w) = fsys w"
  by (simp add: emit_def)

lemma nowFormat_emit [simp]: "nowFormat (emit e w) = nowFormat w"
  by (simp add: emit_def)

lemma nowFormat_created [simp]: "nowFormat (created f w) = nowFormat w"
  by (simp add: created_def)

lemma fsys_created [simp]: "fsys (created f w) = (fsys w)(f := Exists)"
  by (simp add: created_def)

subsection \<open>The probing loop\<close>

text \<open>
  Whatever the loop returns, it returns a name that did not exist, and it has changed
  nothing but the list of effects, to which it added only calls of \<open>os.Stat\<close> and prints.
\<close>

lemma probeFileName_partial:
  assumes "probeFileName f i w = Some y"
  shows "fsys (snd y) = fsys w \<and> nowFormat (snd y) = nowFormat w \<and>
         fsys w (fst y) = NotExist \<and>
         grows (\<lambda>e. \<not> isLog e \<and> e \<noteq> Ack \<and> \<not> isCreate e) w (snd y)"
proof (induct rule: probeFileName.raw_induct [OF _ assms])
  case (1 probe f i w y)
  show ?case
  proof (cases "fsys w (f i) = NotExist")
    case True
    with 1(2) show ?thesis by (auto intro!: grows_emit grows_refl)
  next
    case False
    with 1(2) have r: "probe f (i + 1)
           (emit (FmtPrintf ''%v - %v\<newline>'' [ArgInt (int (i + 1)), ArgString (f i)])
              (emit (OsStat (f i)) w)) = Some y" by simp
    have g: "grows (\<lambda>e. \<not> isLog e \<and> e \<noteq> Ack \<and> \<not> isCreate e) w
           (emit (FmtPrintf ''%v - %v\<newline>'' [ArgInt (int (i + 1)), ArgString (f i)])
              (emit (OsStat (f i)) w))"
      by (auto intro!: grows_emit grows_refl)
    from 1(1)[OF r] g show ?thesis
      by (auto elim: grows_trans)
  qed
qed

subsection \<open>Parsing the query parameters\<close>

text \<open>
  A parameter that is not written as an integer is not parsed: the error is \<open>ErrSyntax\<close>,
  or \<open>ErrRange\<close> when its digits leave the range before the first other character.
\<close>

lemma parseUintLoop_not_digits:
  "\<not> list_all isDigit s \<Longrightarrow> \<exists>e. parseUintLoop n s = Inl e"
  by (induction s arbitrary: n) (auto simp: Let_def)

lemma ParseInt_not_literal:
  assumes "\<not> isIntegerLiteral s"
  shows "\<exists>e. ParseInt s = Inl e"
proof (cases s)
  case Nil
  then show ?thesis by (simp add: ParseInt_def)
next
  case (Cons c cs)
  show ?thesis
  proof (cases "c = CHR ''+'' \<or> c = CHR ''-''")
    case True
    show ?thesis
    proof (cases "cs = []")
      case True
      with \<open>c = CHR ''+'' \<or> c = CHR ''-''\<close> Cons show ?thesis
        by (auto simp: ParseInt_def ParseUint_def)
    next
      case False
      with True Cons assms have "\<not> list_all isDigit cs"
        by (auto simp: isIntegerLiteral_def)
      then obtain e where "parseUintLoop 0 cs = Inl e"
        using parseUintLoop_not_digits by blast
      with True False Cons show ?thesis
        by (auto simp: ParseInt_def ParseUint_def)
    qed
  next
    case False
    with Cons assms have "\<not> list_all isDigit (c # cs)"
      by (auto simp: isIntegerLiteral_def)
    then obtain e where "parseUintLoop 0 (c # cs) = Inl e"
      using parseUintLoop_not_digits by blast
    with False Cons show ?thesis
      by (simp add: ParseInt_def ParseUint_def)
  qed
qed

lemma ParseInt_examples:
  "ParseInt ''yesterday'' = Inl ErrSyntax"
  "ParseInt ''18446744073709551616x'' = Inl ErrRange"
  "ParseInt ''9223372036854775808'' = Inl ErrRange"
  "ParseInt ''-9223372036854775808'' = Inr (- 9223372036854775808)"
  by (simp_all add: ParseInt_def ParseUint_def isDigit_def cutoff_def maxUint64_def)

lemma wrapInt64_id: "- (2 ^ 63) \<le> x \<Longrightarrow> x < 2 ^ 63 \<Longrightarrow> wrapInt64 x = x"
  by (simp add: wrapInt64_def)

lemma ext_Unix: "unixRepresentable sec \<Longrightarrow> ext (Unix l sec) = sec + unixToInternal"
  by (simp add: Unix_def unixRepresentable_def wrapInt64_id unixToInternal_def secondsPerDay_def)

lemma serveList_status:
  "statusOf (serveList depth env directory fromTs toTs) = None \<or>
   statusOf (serveList depth env directory fromTs toTs) = Some StatusOK"
  by (simp add: serveList_def statusOf_def Marshal_def split: option.splits sum.splits)

text \<open>
  The three answers of the handler that depend on the parameters only: a \<open>from\<close> that is
  not written as an integer is answered with 400 and the error of \<open>ParseInt\<close>; integers
  for which \<open>time.Unix\<close> has a time value are answered with 400 when \<open>to\<close> is not greater
  than \<open>from\<close>; and without parameters the range is the 24 hours that end now.
\<close>

lemma listHandler_not_integer:
  assumes "qFrom \<noteq> []" and "\<not> isIntegerLiteral qFrom"
  shows "\<exists>e. ParseInt qFrom = Inl e \<and>
             listHandler depth env directory now qFrom qTo =
               Some (Inr (Response StatusBadRequest (ErrorText e)))"
proof -
  from ParseInt_not_literal [OF assms(2)] obtain e where "ParseInt qFrom = Inl e" ..
  with assms(1) show ?thesis
    by (simp add: listHandler_def parseUnixTimeOrDefault_def)
qed

lemma listHandler_not_before:
  assumes "ParseInt qFrom = Inr f" and "ParseInt qTo = Inr t"
    and "unixRepresentable f" and "unixRepresentable t" and "t \<le> f"
  shows "listHandler depth env directory now qFrom qTo =
           Some (Inr (Response StatusBadRequest (PlainText ''from should be less than to'')))"
proof -
  from assms(1,2) have ne: "qFrom \<noteq> []" "qTo \<noteq> []" by (auto simp: ParseInt_def)
  from assms have "\<not> Before (In (Unix (Local env) f) (Local env))
                        (In (Unix (Local env) t) (Local env))"
    by (simp add: Before_def In_def ext_Unix)
  with assms(1,2) ne show ?thesis
    by (simp add: listHandler_def parseUnixTimeOrDefault_def)
qed

lemma listHandler_default_range:
  assumes "0 \<le> nsec now" and "nsec now < 1000000000"
    and "- (2 ^ 63) + 86400 \<le> ext now" and "ext now < 2 ^ 63"
  shows "listHandler depth env directory now [] [] =
           serveList depth env directory
             (In (Add now (- 24 * Hour)) (Local env)) (In now (Local env))"
proof -
  have f: "Add now (- 24 * Hour) = now\<lparr>ext := ext now - 86400\<rparr>"
    using assms
    by (simp add: Add_def addSec_def wrapInt64_id Hour_def Second_def quot_def rem_def)
  have t: "In (Add (In (Add now (- 24 * Hour)) (Local env)) (24 * Hour)) (Local env) =
           In now (Local env)"
    using assms unfolding f
    by (simp add: Add_def addSec_def wrapInt64_id Hour_def Second_def quot_def rem_def In_def)
  have b: "Before (In (Add now (- 24 * Hour)) (Local env)) (In now (Local env))"
    unfolding f by (simp add: Before_def In_def)
  from t b show ?thesis
    by (simp add: listHandler_def parseUnixTimeOrDefault_def)
qed

text \<open>
  The request \<open>/list?from=9223372036854775807&to=0\<close> on a host whose local time is UTC:
  \<open>time.Unix\<close> wraps around and \<open>fromTs\<close> is 15:30:07 on December 4 of the year
  292277026596 in Go's calendar, which \<open>Before\<close> places before 1970.
\<close>

lemma ParseInt_max: "ParseInt ''9223372036854775807'' = Inr 9223372036854775807"
  by (simp add: ParseInt_def ParseUint_def isDigit_def cutoff_def maxUint64_def)

lemma ParseInt_zero: "ParseInt ''0'' = Inr 0"
  by (simp add: ParseInt_def ParseUint_def isDigit_def cutoff_def maxUint64_def)

lemma parse_wrapped_from:
  "parseUnixTimeOrDefault 0 ''9223372036854775807'' d =
     Inr \<lparr>ext = - 9223371974719179009, nsec = 0, loc = 0\<rparr>"
  by (simp add: parseUnixTimeOrDefault_def ParseInt_max Unix_def In_def wrapInt64_def
      unixToInternal_def secondsPerDay_def)

lemma parse_zero_to:
  "parseUnixTimeOrDefault 0 ''0'' d = Inr \<lparr>ext = 62135596800, nsec = 0, loc = 0\<rparr>"
  by (simp add: parseUnixTimeOrDefault_def ParseInt_zero Unix_def In_def wrapInt64_def
      unixToInternal_def secondsPerDay_def)

lemma date_wrapped:
  "(let t = \<lparr>ext = - 9223371974719179009, nsec = 0, loc = 0\<rparr>
    in (Year t, Month t, Day t, Hour_of t, Minute_of t, Second_of t)) =
   (292277026596, 12, 4, 15, 30, 7)"
  by code_simp

lemma list_wrapped:
  "listTargetDirectories 4 \<lparr>ext = - 9223371974719179009, nsec = 0, loc = 0\<rparr>
     \<lparr>ext = 62135596800, nsec = 0, loc = 0\<rparr> = Some (Inr [])"
  by code_simp

lemma parse_example_from:
  "parseUnixTimeOrDefault 0 ''1685440800'' d = Inr (In (Unix 0 1685440800) 0)"
  by (simp add: parseUnixTimeOrDefault_def ParseInt_def ParseUint_def isDigit_def
      cutoff_def maxUint64_def)

lemma parse_example_to:
  "parseUnixTimeOrDefault 0 ''1685449800'' d = Inr (In (Unix 0 1685449800) 0)"
  by (simp add: parseUnixTimeOrDefault_def ParseInt_def ParseUint_def isDigit_def
      cutoff_def maxUint64_def)

lemma list_example:
  "listTargetDirectories 4 (In (Unix 0 1685440800) 0) (In (Unix 0 1685449800) 0) =
     Some (Inr [''2023/05/30/10'', ''2023/05/30/11''])"
  by code_simp

lemma Before_example: "Before (In (Unix 0 1685440800) 0) (In (Unix 0 1685449800) 0)"
  by code_simp

lemma Join_example:
  "Join [''clips'', ''2023/05/30/10''] = ''clips/2023/05/30/10''"
  "Join [''clips'', ''2023/05/30/11''] = ''clips/2023/05/30/11''"
  by code_simp+

subsection \<open>The probing loop finds the first free name\<close>




subsection \<open>What a run of the consumer adds to the effects\<close>

text \<open>
  The download never logs and never acknowledges; each of the four handlers writes its
  one log line and, but for the download, nothing else.
\<close>

lemma download_effects:
  assumes "downloadAndSaveCameraClipPreview env p clip w = Some (r, w')"
  shows "grows (\<lambda>e. \<not> isLog e \<and> e \<noteq> Ack) w w'"
proof -
  let ?P = "\<lambda>e. \<not> isLog e \<and> e \<noteq> Ack"
  have pr: "\<And>f i w0 n w1. probeFileName f i w0 = Some (n, w1) \<Longrightarrow> grows ?P w w0 \<Longrightarrow> grows ?P w w1"
  proof -
    fix f i w0 n w1 assume a: "probeFileName f i w0 = Some (n, w1)" and g: "grows ?P w w0"
    from probeFileName_partial[OF a] have "grows (\<lambda>e. \<not> isLog e \<and> e \<noteq> Ack \<and> \<not> isCreate e) w0 w1" by simp
    then have "grows ?P w0 w1" by (auto elim: grows_weaken)
    with g show "grows ?P w w1" by (auto elim: grows_trans)
  qed
  show ?thesis
    using assms
    unfolding downloadAndSaveCameraClipPreview_def Let_def
    by (auto split: sum.splits option.splits list.splits prod.splits if_splits
             dest!: pr intro!: grows_emit grows_created grows_refl)
qed

lemma grows_newEffects:
  "grows P w w' \<Longrightarrow> effects w' = effects w @ newEffects w w' \<and> list_all P (newEffects w w')"
  by (auto simp: grows_iff newEffects_def)

lemma handler_shape:
  assumes run: "(case clipPreview of
            None \<Rightarrow> Some (None, emit l w)
          | Some clip \<Rightarrow>
              (case downloadAndSaveCameraClipPreview env p clip (emit l w) of
                 None \<Rightarrow> None
               | Some (Some err, w) \<Rightarrow> Some (Some err, w)
               | Some (None, w) \<Rightarrow> Some (None, w))) = Some (r, w')"
    and l: "isLog l"
  shows "grows (\<lambda>e. e \<noteq> Ack) w w' \<and> filter isLog (newEffects w w') = [l]"
proof (cases clipPreview)
  case None
  with run l show ?thesis
    by (auto simp: emit_def grows_iff newEffects_def)
next
  case (Some clip)
  with run have d: "downloadAndSaveCameraClipPreview env p clip (emit l w) = Some (r, w')"
    by (auto split: option.splits)
  from download_effects[OF d] obtain mid where
    mid: "effects w' = effects w @ l # mid" and a: "list_all (\<lambda>e. \<not> isLog e \<and> e \<noteq> Ack) mid"
    by (auto simp: grows_iff emit_def)
  from a have "filter isLog mid = []" "Ack \<notin> set mid" by (auto simp: list_all_iff filter_empty_conv)
  with mid l show ?thesis
    by (cases l) (auto simp: grows_iff newEffects_def list_all_iff)
qed

lemma processChimeEvent_effects:
  assumes "processChimeEvent env p chime clipPreview w = Some (r, w')"
  shows "grows (\<lambda>e. e \<noteq> Ack) w w' \<and> length (filter isLog (newEffects w w')) = 1"
proof -
  from assms[unfolded processChimeEvent_def Let_def]
  have "grows (\<lambda>e. e \<noteq> Ack) w w' \<and> filter isLog (newEffects w w') =
          [LogPrintf ''processChimeEvent is not implemented yet: %v, %v''
             [ArgString (DoorbellChime_format (Some chime)),
              ArgString (CameraClipPreview_format clipPreview)]]"
    by (rule handler_shape) simp
  then show ?thesis by simp
qed

lemma processMotionEvent_effects:
  assumes "processMotionEvent env p motion clipPreview w = Some (r, w')"
  shows "grows (\<lambda>e. e \<noteq> Ack) w w' \<and> length (filter isLog (newEffects w w')) = 1"
proof -
  from assms[unfolded processMotionEvent_def Let_def]
  have "grows (\<lambda>e. e \<noteq> Ack) w w' \<and> filter isLog (newEffects w w') =
          [LogPrintf ''processMotionEvent is not implemented yet: %v, %v''
             [ArgString (CameraMotion_format (Some motion)),
              ArgString (CameraClipPreview_format clipPreview)]]"
    by (rule handler_shape) simp
  then show ?thesis by simp
qed

lemma processPersonEvent_effects:
  assumes "processPersonEvent env p person clipPreview w = Some (r, w')"
  shows "grows (\<lambda>e. e \<noteq> Ack) w w' \<and> length (filter isLog (newEffects w w')) = 1"
proof -
  from assms[unfolded processPersonEvent_def Let_def]
  have "grows (\<lambda>e. e \<noteq> Ack) w w' \<and> filter isLog (newEffects w w') =
          [LogPrintf ''processPersonEvent is not implemented yet: %v, %v''
             [ArgString (CameraPerson_format (Some person)),
              ArgString (CameraClipPreview_format clipPreview)]]"
    by (rule handler_shape) simp
  then show ?thesis by simp
qed

lemma processRelationUpdateEvent_effects:
  assumes "processRelationUpdateEvent env p event w = Some (r, w')"
  shows "grows (\<lambda>e. e \<noteq> Ack) w w' \<and> length (filter isLog (newEffects w w')) = 1"
  using assms
  by (auto simp: processRelationUpdateEvent_def emit_def grows_iff newEffects_def)

lemma processResourceUpdateEvent_effects:
  assumes "processResourceUpdateEvent env p event w = Some (r, w')"
  shows "grows (\<lambda>e. e \<noteq> Ack) w w' \<and> length (filter isLog (newEffects w w')) \<le> 1 \<and>
         (r = None \<longrightarrow> length (filter isLog (newEffects w w')) = 1)"
proof -
  have e: "grows (\<lambda>e. e \<noteq> Ack) w w \<and> length (filter isLog (newEffects w w)) \<le> 1"
    by (simp add: grows_refl newEffects_def)
  show ?thesis
    using assms e
    unfolding processResourceUpdateEvent_def Let_def
    by (auto split: option.splits sum.splits
        dest!: processChimeEvent_effects processMotionEvent_effects processPersonEvent_effects)
qed

lemma Process_effects:
  assumes "Process env p event w = Some (r, w')"
  shows "grows (\<lambda>e. e \<noteq> Ack) w w' \<and> length (filter isLog (newEffects w w')) \<le> 1 \<and>
         (r = None \<longrightarrow> length (filter isLog (newEffects w w')) = 1)"
proof -
  have e: "grows (\<lambda>e. e \<noteq> Ack) w w \<and> length (filter isLog (newEffects w w)) \<le> 1"
    by (simp add: grows_refl newEffects_def)
  show ?thesis
    using assms e
    unfolding Process_def
    by (auto split: if_splits
        dest!: processResourceUpdateEvent_effects processRelationUpdateEvent_effects)
qed

subsection \<open>A loop that never finds a free name\<close>

lemma probeFileName_diverges_aux:
  assumes "probeFileName f i w = Some y"
  shows "\<exists>j. fsys w (f j) = NotExist"
proof (induct rule: probeFileName.raw_induct [OF _ assms])
  case (1 probe f i w y)
  show ?case
  proof (cases "fsys w (f i) = NotExist")
    case True
    then show ?thesis by blast
  next
    case False
    with 1(2) have "probe f (i + 1)
           (emit (FmtPrintf ''%v - %v\<newline>'' [ArgInt (int (i + 1)), ArgString (f i)])
              (emit (OsStat (f i)) w)) = Some y" by simp
    from 1(1)[OF this] show ?thesis by simp
  qed
qed

lemma probeFileName_diverges:
  "(\<And>j. fsys w (f j) \<noteq> NotExist) \<Longrightarrow> probeFileName f i w = None"
  using probeFileName_diverges_aux [of f i w] by (cases "probeFileName f i w") auto

subsection \<open>The example runs\<close>

lemma exampleNames:
  "clipFileName exampleProcessor ''2023/05/30/10/{eventSessionId}'' ''S1'' ''.mp4'' 0
     = ''output/2023/05/30/10/S1_0.mp4''"
  "clipFileName exampleProcessor ''2023/05/30/10/{eventSessionId}'' ''S1'' ''.mp4'' 1
     = ''output/2023/05/30/10/S1_1.mp4''"
  "Dir ''output/2023/05/30/10/S1_0.mp4'' = ''output/2023/05/30/10''"
  "Dir ''output/2023/05/30/10/S1_1.mp4'' = ''output/2023/05/30/10''"
  by code_simp+




lemma example_formats:
  "DoorbellChime_format (Some exampleChime) =
     ''DoorbellChimeEvent(EventSessionId: S1, EventId: E1)''"
  "CameraClipPreview_format (Some exampleClip) =
     ''CameraClipPreview(EventSessionId: S1, PreviewUrl: https://clip)''"
  by (simp_all add: DoorbellChime_format_def CameraClipPreview_format_def exampleChime_def
      exampleClip_def)

lemma download_example_logged:
  "downloadAndSaveCameraClipPreview exampleConsumerEnv exampleProcessor exampleClip
     (emit exampleChimeLog exampleWorld) =
   Some (None, exampleWorld1\<lparr>effects := exampleChimeLog # effects exampleWorld1\<rparr>)"
  unfolding downloadAndSaveCameraClipPreview_def
  apply (simp add: exampleConsumerEnv_def exampleClip_def exampleWorld_def exampleWorld1_def
      emit_def created_def exampleProcessor_def[symmetric])
  apply (subst probeFileName.simps)
  apply (simp add: exampleNames emit_def created_def exampleConsumerEnv_def exampleClip_def Let_def)
  done

lemma decodeClipPreview_example:
  "decodeClipPreview exampleConsumerEnv
     \<lparr>Name = ''enterprises/p/devices/d'', Traits = [],
      Events = [(ResourceUpdateEventTypeDoorbellChime, ''chime''),
                (ResourceUpdateEventTypeCameraClipPreview, ''clip'')]\<rparr> = Some exampleClip"
  by (simp add: decodeClipPreview_def exampleConsumerEnv_def
      ResourceUpdateEventTypeDoorbellChime_def ResourceUpdateEventTypeCameraClipPreview_def)

lemma Process_example:
  "Process exampleConsumerEnv exampleProcessor exampleEvent exampleWorld =
     Some (None, exampleWorld1\<lparr>effects := exampleChimeLog # effects exampleWorld1\<rparr>)"
proof -
  have ch: "UnmarshalDoorbellChime exampleConsumerEnv ''chime'' = Inr exampleChime"
    by (simp add: exampleConsumerEnv_def)
  show ?thesis
    using download_example_logged
    by (simp add: Process_def processResourceUpdateEvent_def exampleEvent_def
        decodeClipPreview_example ch processChimeEvent_def example_formats exampleChimeLog_def)
qed

lemma receiveCallback_example:
  "receiveCallback exampleConsumerEnv exampleProcessor ''event'' exampleWorld =
     Some (None, exampleWorldAcked)"
proof -
  have ev: "UnmarshalDeviceEvent exampleConsumerEnv ''event'' = Inr exampleEvent"
    by (simp add: exampleConsumerEnv_def)
  show ?thesis
    by (simp add: receiveCallback_def ev Process_example emit_def exampleWorldAcked_def)
qed

text \<open>
  Where \<open>os.Stat\<close> fails on every path, the loop of the download goes on for ever, and
  so does the processing of the event.
\<close>

lemma Process_example_blocked:
  "Process exampleConsumerEnv exampleProcessor exampleEvent exampleBlockedWorld = None"
proof -
  have ch: "UnmarshalDoorbellChime exampleConsumerEnv ''chime'' = Inr exampleChime"
    by (simp add: exampleConsumerEnv_def)
  have pr: "\<And>f w. fsys w = (\<lambda>path. StatError) \<Longrightarrow> probeFileName f 0 w = None"
    by (rule probeFileName_diverges) simp
  have d: "\<And>l. downloadAndSaveCameraClipPreview exampleConsumerEnv exampleProcessor exampleClip
             (emit l exampleBlockedWorld) = None"
    unfolding downloadAndSaveCameraClipPreview_def
    by (simp add: exampleConsumerEnv_def pr exampleBlockedWorld_def)
  show ?thesis
    by (simp add: Process_def processResourceUpdateEvent_def exampleEvent_def
        decodeClipPreview_example ch processChimeEvent_def d)
qed

subsection \<open>The depth bound of listTargetDirectories\<close>

text \<open>
  The bound on the depth of the calls only cuts runs short: a result found within some
  depth is the result for every larger depth.
\<close>

lemma keeps_refl: "keeps x x"
  by (simp add: keeps_def)

lemma keeps_case:
  "keeps x x' \<Longrightarrow> (\<And>s. keeps (k s) (k' s)) \<Longrightarrow>
   keeps (case x of None \<Rightarrow> None | Some (Inl p) \<Rightarrow> Some (Inl p) | Some (Inr s) \<Rightarrow> k s)
         (case x' of None \<Rightarrow> None | Some (Inl p) \<Rightarrow> Some (Inl p) | Some (Inr s) \<Rightarrow> k' s)"
  by (auto simp: keeps_def split: option.splits sum.splits)

lemma keeps_if:
  "keeps a a' \<Longrightarrow> keeps b b' \<Longrightarrow> keeps (if c then a else b) (if c then a' else b')"
  by (simp add: keeps_def)

lemma keeps_prod:
  "(\<And>a b. keeps (f a b) (f' a b)) \<Longrightarrow>
   keeps (case s of (a, b) \<Rightarrow> f a b) (case s of (a, b) \<Rightarrow> f' a b)"
  by (cases s) simp

lemma listTargetDirectories_depth_step:
  assumes "\<And>f t. keeps (listTargetDirectories d f t) (listTargetDirectories d' f t)"
  shows "keeps (listTargetDirectories (Suc d) fromTs toTs)
               (listTargetDirectories (Suc d') fromTs toTs)"
  apply (simp only: listTargetDirectories.simps Let_def)
  apply (intro keeps_case keeps_if keeps_prod assms keeps_refl)
  done

lemma listTargetDirectories_keeps:
  "keeps (listTargetDirectories d fromTs toTs) (listTargetDirectories (d + k) fromTs toTs)"
proof (induction d arbitrary: fromTs toTs)
  case 0
  then show ?case by (simp add: keeps_def)
next
  case (Suc d)
  have "keeps (listTargetDirectories (Suc d) fromTs toTs)
              (listTargetDirectories (Suc (d + k)) fromTs toTs)"
    by (rule listTargetDirectories_depth_step) (rule Suc.IH)
  then show ?case by simp
qed

lemma listTargetDirectories_deeper:
  "listTargetDirectories d fromTs toTs = Some r \<Longrightarrow>
   listTargetDirectories (d + k) fromTs toTs = Some r"
  using listTargetDirectories_keeps [of d fromTs toTs k] by (simp add: keeps_def)

section \<open>The claims about the clip server\<close>

subsection \<open>The decomposition of a range into directories\<close>

text \<open>
  Claim C1: for every pair of instants with \<open>from\<close> before \<open>to\<close>, the prefixes returned
  by \<open>listTargetDirectories\<close> cover every hour bucket that meets the range, cover nothing
  outside it and do not overlap.

  The code does not cover the range. For the single hour from 10:00 to 11:00 on
  2023-05-30 (UTC) all four tests of the function compare equal fields, and it returns the
  empty list: the bucket \<open>2023/05/30/10\<close>, in which the whole range lies, is under no
  returned prefix.
\<close>

theorem listTargetDirectories_single_hour:
  "Before (Date 2023 5 30 10 0 0 0 0) (Date 2023 5 30 11 0 0 0 0) \<and>
   hourBucket (Date 2023 5 30 10 0 0 0 0) = ''2023/05/30/10'' \<and>
   listTargetDirectories 4 (Date 2023 5 30 10 0 0 0 0) (Date 2023 5 30 11 0 0 0 0) =
     Some (Inr [])"
  by code_simp

text \<open>
  Claim C2: from 2023-01-01T00:00:00 to 2024-01-01T00:00:00 the function returns exactly
  the list with the one element \<open>2023\<close>.

  The code returns the empty list. The last instant of the range is still in 2023, so the
  branch for years is not entered; in the branches for months and days every loop is bounded
  by a field of the exclusive end, which is January, the day 1 and the hour 0, so no loop
  runs once.
\<close>

theorem listTargetDirectories_year_2023:
  "listTargetDirectories 4 (Date 2023 1 1 0 0 0 0 0) (Date 2024 1 1 0 0 0 0 0) = Some (Inr [])"
  by code_simp

text \<open>
  Claim C3: from 2023-05-31T23:00:00 to 2023-06-01T01:00:00 the function returns
  \<open>2023/05/31/23\<close> and \<open>2023/06/01/00\<close>, in that order.

  The code returns the empty list: the call for the stretch up to June 1 finds its two
  ends in the same hour, and after it the start has moved to June 1, 00:00, which is in the
  same hour as the last instant of the range.
\<close>

theorem listTargetDirectories_month_boundary:
  "listTargetDirectories 4 (Date 2023 5 31 23 0 0 0 0) (Date 2023 6 1 1 0 0 0 0) = Some (Inr [])"
  by code_simp

text \<open>
  Claim C4: for every pair of instants with \<open>from\<close> before \<open>to\<close>, neither of the two
  panics in the branch for months is reached.

  The second one is reached. From 2023-03-15 to 2024-02-01 the years differ, so the function
  calls itself for the stretch from March 15 to January 1 of 2024; there the months differ
  (March and December), and the month of the start, March, is larger than the month of the
  exclusive end, January.
\<close>

theorem listTargetDirectories_panics:
  "Before (Date 2023 3 15 0 0 0 0 0) (Date 2024 2 1 0 0 0 0 0) \<and>
   listTargetDirectories 4 (Date 2023 3 15 0 0 0 0 0) (Date 2024 2 1 0 0 0 0 0) =
     Some (Inl (Panic ''fromTs.Month() must not be larger than toTs''))"
  by code_simp

subsection \<open>The parameters of /list\<close>

text \<open>
  Claim C6: a request with \<open>from\<close> greater than or equal to \<open>to\<close> is answered with 400,
  a request whose \<open>from\<close> is not an integer is answered with 400, and a request without
  \<open>from\<close> and \<open>to\<close> is served for the 24 hours that end now.

  The first part fails for the request \<open>/list?from=9223372036854775807&to=0\<close>, here on a
  host whose local time is UTC. Both parameters are parsed as the integers they are, and
  \<open>from\<close> is the greater. \<open>time.Unix\<close> adds the distance between the epochs to \<open>from\<close>
  in int64 arithmetic: the sum wraps around and \<open>fromTs\<close> holds a number of seconds far below
  that of \<open>toTs\<close>. The handler's test, whose message is "from should be less than to", finds
  \<open>fromTs\<close> before \<open>toTs\<close> and lets the request pass; the range is decomposed into no
  directory and the answer is 200 with the empty list.
\<close>

theorem listHandler_wrapped_from_answers_200:
  "ParseInt ''9223372036854775807'' = Inr 9223372036854775807 \<and>
   ParseInt ''0'' = Inr 0 \<and>
   parseUnixTimeOrDefault (Local exampleServerEnv) ''9223372036854775807''
       (Add exampleNow (- 24 * Hour)) =
     Inr \<lparr>ext = - 9223371974719179009, nsec = 0, loc = 0\<rparr> \<and>
   parseUnixTimeOrDefault (Local exampleServerEnv) ''0''
       (Add \<lparr>ext = - 9223371974719179009, nsec = 0, loc = 0\<rparr> (24 * Hour)) =
     Inr \<lparr>ext = 62135596800, nsec = 0, loc = 0\<rparr> \<and>
   Before \<lparr>ext = - 9223371974719179009, nsec = 0, loc = 0\<rparr>
          \<lparr>ext = 62135596800, nsec = 0, loc = 0\<rparr> \<and>
   listTargetDirectories 4 \<lparr>ext = - 9223371974719179009, nsec = 0, loc = 0\<rparr>
       \<lparr>ext = 62135596800, nsec = 0, loc = 0\<rparr> = Some (Inr []) \<and>
   listHandler 4 exampleServerEnv ''clips'' exampleNow ''9223372036854775807'' ''0'' =
     Some (Inr (Response StatusOK (JsonArray [])))"
proof -
  have l: "Local exampleServerEnv = 0"
    by (simp add: exampleServerEnv_def)
  have b: "Before \<lparr>ext = - 9223371974719179009, nsec = 0, loc = 0\<rparr>
                  \<lparr>ext = 62135596800, nsec = 0, loc = 0\<rparr>"
    by (simp add: Before_def)
  have h: "listHandler 4 exampleServerEnv ''clips'' exampleNow ''9223372036854775807'' ''0'' =
     Some (Inr (Response StatusOK (JsonArray [])))"
    by (simp add: listHandler_def l parse_wrapped_from parse_zero_to b serveList_def
        list_wrapped Marshal_def)
  show ?thesis
    by (simp add: ParseInt_max ParseInt_zero l parse_wrapped_from parse_zero_to b list_wrapped h)
qed

subsection \<open>Errors of the file system while listing\<close>

lemma walk_example:
  "foldl (\<lambda>result d. foldl (walkFn exampleServerEnv ''clips'') result
                        (fst (WalkDir exampleServerEnv (Join [''clips'', d]))))
         [] [''2023/05/30/10'', ''2023/05/30/11''] = [''2023/05/30/10/a_0.mp4'']"
  by (simp add: exampleServerEnv_def Join_example exampleWalk_def walkFn_def)

text \<open>
  Claim C7: when an error of the file system occurs while the directories of a valid
  range are walked, the endpoint answers with 500.

  It answers with 200. In the example the first directory holds a file and a subdirectory
  that cannot be read, and the second directory cannot be read at all; the answer is the
  list with the one file that was seen.
\<close>

theorem listHandler_walk_error_answers_200:
  "listHandler 4 exampleServerEnv ''clips'' exampleNow ''1685440800'' ''1685449800'' =
     Some (Inr (Response StatusOK (JsonArray [''2023/05/30/10/a_0.mp4''])))"
  using walk_example
  by (simp add: listHandler_def serveList_def parse_example_from parse_example_to list_example
      Before_example Marshal_def exampleServerEnv_def)

text \<open>
  Claim C7 as amended: for every request with a valid range for which the decomposition
  returns a list, the endpoint answers with 200 and the paths the walks have collected,
  whatever errors the walks met: the function handed to \<open>WalkDir\<close> returns nil on every
  call and what \<open>WalkDir\<close> returns is dropped. (The answer 500 is kept for a failure of the
  JSON encoding.)
\<close>

theorem listHandler_ignores_walk_errors:
  assumes "parseUnixTimeOrDefault (Local env) qFrom (Add now (- 24 * Hour)) = Inr fromTs"
    and "parseUnixTimeOrDefault (Local env) qTo (Add fromTs (24 * Hour)) = Inr toTs"
    and "Before fromTs toTs"
    and "listTargetDirectories depth fromTs toTs = Some (Inr dirs)"
  shows "listHandler depth env directory now qFrom qTo =
           Some (Inr (Response StatusOK (JsonArray
             (foldl (\<lambda>result d. foldl (walkFn env directory) result
                                  (fst (WalkDir env (Join [directory, d])))) [] dirs))))"
  using assms by (simp add: listHandler_def serveList_def Marshal_def)

lemma list_example_default:
  "listTargetDirectories 4 (In (Add exampleNow (- 24 * Hour)) 0)
     (In (Add (In (Add exampleNow (- 24 * Hour)) 0) (24 * Hour)) 0) =
   Some (Inr [''2023/05/30/00'', ''2023/05/30/01'', ''2023/05/30/02'', ''2023/05/30/03'',
              ''2023/05/30/04'', ''2023/05/30/05'', ''2023/05/30/06'', ''2023/05/30/07'',
              ''2023/05/30/08'', ''2023/05/30/09'', ''2023/05/30/10'', ''2023/05/30/11''])"
  by code_simp

lemma Before_example_default:
  "Before (In (Add exampleNow (- 24 * Hour)) 0)
     (In (Add (In (Add exampleNow (- 24 * Hour)) 0) (24 * Hour)) 0)"
  by code_simp

lemma walk_example_default:
  "foldl (\<lambda>result d. foldl (walkFn exampleServerEnv ''clips'') result
                        (fst (WalkDir exampleServerEnv (Join [''clips'', d]))))
         [] [''2023/05/30/00'', ''2023/05/30/01'', ''2023/05/30/02'', ''2023/05/30/03'',
              ''2023/05/30/04'', ''2023/05/30/05'', ''2023/05/30/06'', ''2023/05/30/07'',
              ''2023/05/30/08'', ''2023/05/30/09'', ''2023/05/30/10'', ''2023/05/30/11'']
     = [''2023/05/30/10/a_0.mp4'']"
  by code_simp

theorem listHandler_ignores_walk_errors_witness:
  "listHandler 4 exampleServerEnv ''clips'' exampleNow [] [] =
     Some (Inr (Response StatusOK (JsonArray [''2023/05/30/10/a_0.mp4''])))"
proof -
  have l: "Local exampleServerEnv = 0" by (simp add: exampleServerEnv_def)
  have p1: "parseUnixTimeOrDefault (Local exampleServerEnv) [] (Add exampleNow (- 24 * Hour)) =
              Inr (In (Add exampleNow (- 24 * Hour)) 0)"
    by (simp add: parseUnixTimeOrDefault_def l)
  have p2: "parseUnixTimeOrDefault (Local exampleServerEnv) []
              (Add (In (Add exampleNow (- 24 * Hour)) 0) (24 * Hour)) =
              Inr (In (Add (In (Add exampleNow (- 24 * Hour)) 0) (24 * Hour)) 0)"
    by (simp add: parseUnixTimeOrDefault_def l)
  from listHandler_ignores_walk_errors [OF p1 p2 Before_example_default list_example_default,
      of "''clips''"]
  show ?thesis by (simp only: walk_example_default)
qed

section \<open>The claims about the event consumer\<close>

subsection \<open>Resource updates without a known event\<close>

text \<open>
  Claim C8: a resource update whose map of events has none of the three keys
  DoorbellChime, CameraMotion and CameraPerson makes the processing return an error whose
  message lists the keys of the events and of the traits, and no file is written: the
  world is returned as it was, with no effect added and no path changed.
\<close>

theorem Process_unsupported_resource_update:
  assumes "ResourceUpdate event = Some ru"
    and "ResourceUpdateEventTypeDoorbellChime \<notin> fst ` set (Events ru)"
    and "ResourceUpdateEventTypeCameraMotion \<notin> fst ` set (Events ru)"
    and "ResourceUpdateEventTypeCameraPerson \<notin> fst ` set (Events ru)"
  shows "Process env p event w =
    Some (Some (ErrorString
      (''unsupported resource update event:'' @ newlineTab @
       ''* user id('' @ UserId event @ '')'' @ newlineTab @
       ''* events('' @ strings_Join (map fst (Events ru)) '','' @ '')'' @ newlineTab @
       ''* traits('' @ strings_Join (map fst (Traits ru)) '','' @ '')'')), w)"
proof -
  have m: "map_of (Events ru) ResourceUpdateEventTypeDoorbellChime = None"
     "map_of (Events ru) ResourceUpdateEventTypeCameraMotion = None"
     "map_of (Events ru) ResourceUpdateEventTypeCameraPerson = None"
    using assms(2-4) by (simp_all add: map_of_eq_None_iff)
  show ?thesis
    using assms(1) m
    by (simp add: Process_def processResourceUpdateEvent_def newlineTab_def)
qed

theorem Process_unsupported_resource_update_witness:
  "Process exampleConsumerEnv exampleProcessor exampleSoundEvent exampleWorld =
    Some (Some (ErrorString
      (''unsupported resource update event:'' @ newlineTab @
       ''* user id(user)'' @ newlineTab @
       ''* events(sdm.devices.events.CameraSound.Sound,sdm.devices.events.CameraClipPreview.ClipPreview)''
       @ newlineTab @
       ''* traits(sdm.devices.traits.Info)'')), exampleWorld)"
proof -
  have r: "ResourceUpdate exampleSoundEvent = Some exampleSoundUpdate"
    by (simp add: exampleSoundEvent_def)
  have k: "ResourceUpdateEventTypeDoorbellChime \<notin> fst ` set (Events exampleSoundUpdate)"
    "ResourceUpdateEventTypeCameraMotion \<notin> fst ` set (Events exampleSoundUpdate)"
    "ResourceUpdateEventTypeCameraPerson \<notin> fst ` set (Events exampleSoundUpdate)"
    by (simp_all add: exampleSoundUpdate_def ResourceUpdateEventTypeDoorbellChime_def
        ResourceUpdateEventTypeCameraMotion_def ResourceUpdateEventTypeCameraPerson_def
        ResourceUpdateEventTypeCameraClipPreview_def)
  from Process_unsupported_resource_update [OF r k,
      of exampleConsumerEnv exampleProcessor exampleWorld]
  show ?thesis
    by (simp add: exampleSoundEvent_def exampleSoundUpdate_def exampleEvent_def
        ResourceUpdateEventTypeCameraClipPreview_def)
qed

subsection \<open>Names of the clips of one session\<close>



subsection \<open>The order of the dispatch\<close>

text \<open>
  Claim C10: the dispatch has a fixed priority and runs one handler per event. An event
  with a resource update is handled as a resource update, whether or not it has a relation
  update as well; in a resource update the chime event goes before the motion event and the
  motion event before the person event; an event with neither update gives an error.
  Each handler writes one log line when it starts, and nothing else logs, so the log lines a
  run of \<open>Process\<close> adds count the handlers that ran: never more than one, and exactly
  one when no error is returned.
\<close>

theorem Process_dispatch_priority:
  "(ResourceUpdate event \<noteq> None \<longrightarrow>
      Process env p event w = processResourceUpdateEvent env p event w) \<and>
   (ResourceUpdate event = None \<and> RelationUpdate event \<noteq> None \<longrightarrow>
      Process env p event w = processRelationUpdateEvent env p event w) \<and>
   (ResourceUpdate event = None \<and> RelationUpdate event = None \<longrightarrow>
      Process env p event w =
        Some (Some (ErrorString (''Unsupported event: '' @ DeviceEvent_format event)), w)) \<and>
   (ResourceUpdate event = Some ru \<and>
    map_of (Events ru) ResourceUpdateEventTypeDoorbellChime = Some raw \<and>
    UnmarshalDoorbellChime env raw = Inr chime \<longrightarrow>
      processResourceUpdateEvent env p event w =
        processChimeEvent env p chime (decodeClipPreview env ru) w) \<and>
   (ResourceUpdate event = Some ru \<and>
    map_of (Events ru) ResourceUpdateEventTypeDoorbellChime = None \<and>
    map_of (Events ru) ResourceUpdateEventTypeCameraMotion = Some raw \<and>
    UnmarshalCameraMotion env raw = Inr motion \<longrightarrow>
      processResourceUpdateEvent env p event w =
        processMotionEvent env p motion (decodeClipPreview env ru) w) \<and>
   (ResourceUpdate event = Some ru \<and>
    map_of (Events ru) ResourceUpdateEventTypeDoorbellChime = None \<and>
    map_of (Events ru) ResourceUpdateEventTypeCameraMotion = None \<and>
    map_of (Events ru) ResourceUpdateEventTypeCameraPerson = Some raw \<and>
    UnmarshalCameraPerson env raw = Inr person \<longrightarrow>
      processResourceUpdateEvent env p event w =
        processPersonEvent env p person (decodeClipPreview env ru) w) \<and>
   (Process env p event w = Some (r, w') \<longrightarrow>
      length (filter isLog (newEffects w w')) \<le> 1 \<and>
      (r = None \<longrightarrow> length (filter isLog (newEffects w w')) = 1))"
proof -
  have "Process env p event w = Some (r, w') \<longrightarrow>
      length (filter isLog (newEffects w w')) \<le> 1 \<and>
      (r = None \<longrightarrow> length (filter isLog (newEffects w w')) = 1)"
    using Process_effects [of env p event w r w'] by blast
  then show ?thesis
    by (simp add: Process_def processResourceUpdateEvent_def)
qed

lemma example_keys:
  "ResourceUpdateEventTypeDoorbellChime \<noteq> ResourceUpdateEventTypeCameraMotion"
  "ResourceUpdateEventTypeDoorbellChime \<noteq> ResourceUpdateEventTypeCameraPerson"
  "ResourceUpdateEventTypeDoorbellChime \<noteq> ResourceUpdateEventTypeCameraClipPreview"
  "ResourceUpdateEventTypeCameraMotion \<noteq> ResourceUpdateEventTypeCameraPerson"
  "ResourceUpdateEventTypeCameraMotion \<noteq> ResourceUpdateEventTypeCameraClipPreview"
  "ResourceUpdateEventTypeCameraPerson \<noteq> ResourceUpdateEventTypeCameraClipPreview"
  by (simp_all add: ResourceUpdateEventTypeDoorbellChime_def
      ResourceUpdateEventTypeCameraMotion_def ResourceUpdateEventTypeCameraPerson_def
      ResourceUpdateEventTypeCameraClipPreview_def)

theorem Process_dispatch_priority_witness:
  "Process exampleConsumerEnv exampleProcessor exampleAllEvent exampleWorld =
     Some (None, emit (LogPrintf ''processChimeEvent is not implemented yet: %v, %v''
                         [ArgString ''DoorbellChimeEvent(EventSessionId: S1, EventId: E1)'',
                          ArgString ''CameraClipPreview(nil)'']) exampleWorld) \<and>
   Process exampleConsumerEnv exampleProcessor
       (exampleAllEvent\<lparr>ResourceUpdate := Some exampleMotionPersonUpdate\<rparr>) exampleWorld =
     Some (None, emit (LogPrintf ''processMotionEvent is not implemented yet: %v, %v''
                         [ArgString ''CameraMotionEvent(EventSessionId: S2, EventId: E2)'',
                          ArgString ''CameraClipPreview(nil)'']) exampleWorld) \<and>
   Process exampleConsumerEnv exampleProcessor
       (exampleAllEvent\<lparr>ResourceUpdate := Some examplePersonUpdate\<rparr>) exampleWorld =
     Some (None, emit (LogPrintf ''processPersonEvent is not implemented yet: %v, %v''
                         [ArgString ''CameraPersonEvent(EventSessionId: S3, EventId: E3)'',
                          ArgString ''CameraClipPreview(nil)'']) exampleWorld) \<and>
   Process exampleConsumerEnv exampleProcessor exampleRelationEvent exampleWorld =
     Some (None, emit (LogPrintf ''processRelationUpdateEvent is not implemented yet: %v''
                         [ArgEvent exampleRelationEvent]) exampleWorld) \<and>
   Process exampleConsumerEnv exampleProcessor exampleEmptyEvent exampleWorld =
     Some (Some (ErrorString (''Unsupported event: '' @ DeviceEvent_format exampleEmptyEvent)),
           exampleWorld) \<and>
   length (filter isLog (newEffects exampleWorld
       (exampleWorld1\<lparr>effects := exampleChimeLog # effects exampleWorld1\<rparr>))) = 1"
proof -
  let ?e2 = "exampleAllEvent\<lparr>ResourceUpdate := Some exampleMotionPersonUpdate\<rparr>"
  let ?e3 = "exampleAllEvent\<lparr>ResourceUpdate := Some examplePersonUpdate\<rparr>"
  have ru: "ResourceUpdate exampleAllEvent = Some exampleAllUpdate"
    "ResourceUpdate ?e2 = Some exampleMotionPersonUpdate"
    "ResourceUpdate ?e3 = Some examplePersonUpdate"
    "ResourceUpdate exampleRelationEvent = None"
    "RelationUpdate exampleRelationEvent = Some exampleRelation"
    "ResourceUpdate exampleEmptyEvent = None"
    "RelationUpdate exampleEmptyEvent = None"
    by (simp_all add: exampleAllEvent_def exampleRelationEvent_def exampleEmptyEvent_def
        exampleEvent_def)
  have m: "map_of (Events exampleAllUpdate) ResourceUpdateEventTypeDoorbellChime = Some ''chime''"
    "map_of (Events exampleMotionPersonUpdate) ResourceUpdateEventTypeDoorbellChime = None"
    "map_of (Events exampleMotionPersonUpdate) ResourceUpdateEventTypeCameraMotion = Some ''motion''"
    "map_of (Events examplePersonUpdate) ResourceUpdateEventTypeDoorbellChime = None"
    "map_of (Events examplePersonUpdate) ResourceUpdateEventTypeCameraMotion = None"
    "map_of (Events examplePersonUpdate) ResourceUpdateEventTypeCameraPerson = Some ''person''"
    using example_keys
    by (auto simp: exampleAllUpdate_def exampleMotionPersonUpdate_def examplePersonUpdate_def)
  have u: "UnmarshalDoorbellChime exampleConsumerEnv ''chime'' = Inr exampleChime"
    "UnmarshalCameraMotion exampleConsumerEnv ''motion'' = Inr exampleMotion"
    "UnmarshalCameraPerson exampleConsumerEnv ''person'' = Inr examplePerson"
    by (simp_all add: exampleConsumerEnv_def)
  have d: "decodeClipPreview exampleConsumerEnv exampleAllUpdate = None"
    "decodeClipPreview exampleConsumerEnv exampleMotionPersonUpdate = None"
    "decodeClipPreview exampleConsumerEnv examplePersonUpdate = None"
    using example_keys
    by (auto simp: decodeClipPreview_def exampleAllUpdate_def exampleMotionPersonUpdate_def
        examplePersonUpdate_def)
  have f: "DoorbellChime_format (Some exampleChime) =
             ''DoorbellChimeEvent(EventSessionId: S1, EventId: E1)''"
    "CameraMotion_format (Some exampleMotion) =
             ''CameraMotionEvent(EventSessionId: S2, EventId: E2)''"
    "CameraPerson_format (Some examplePerson) =
             ''CameraPersonEvent(EventSessionId: S3, EventId: E3)''"
    "CameraClipPreview_format None = ''CameraClipPreview(nil)''"
    by (simp_all add: DoorbellChime_format_def CameraMotion_format_def CameraPerson_format_def
        CameraClipPreview_format_def exampleChime_def exampleMotion_def examplePerson_def)
  from Process_dispatch_priority [of exampleAllEvent exampleConsumerEnv exampleProcessor
      exampleWorld exampleAllUpdate "''chime''" exampleChime]
    Process_dispatch_priority [of ?e2 exampleConsumerEnv exampleProcessor
      exampleWorld exampleMotionPersonUpdate "''motion''" _ exampleMotion]
    Process_dispatch_priority [of ?e3 exampleConsumerEnv exampleProcessor
      exampleWorld examplePersonUpdate "''person''" _ _ examplePerson]
    Process_dispatch_priority [of exampleRelationEvent exampleConsumerEnv exampleProcessor
      exampleWorld]
    Process_dispatch_priority [of exampleEmptyEvent exampleConsumerEnv exampleProcessor
      exampleWorld]
    Process_dispatch_priority [of exampleEvent exampleConsumerEnv exampleProcessor
      exampleWorld _ _ _ _ _ None "exampleWorld1\<lparr>effects := exampleChimeLog # effects exampleWorld1\<rparr>"]
  show ?thesis
    by (simp add: ru m u d f Process_example processChimeEvent_def processMotionEvent_def
        processPersonEvent_def processRelationUpdateEvent_def)
qed

subsection \<open>The acknowledgement\<close>

text \<open>
  Claim C5: every message handed to the callback is acknowledged at once on receipt,
  before its processing is complete, and also when unmarshalling or processing fails.

  The acknowledgement is deferred, so it comes last. For the example message the callback
  logs, fetches the clip, probes the name, makes the directory, creates the file and copies
  the clip, and only then acknowledges.
\<close>

theorem receiveCallback_acknowledges_after_processing:
  "map_option (effects \<circ> snd)
     (receiveCallback exampleConsumerEnv exampleProcessor ''event'' exampleWorld) =
   Some [LogPrintf ''processChimeEvent is not implemented yet: %v, %v''
           [ArgString ''DoorbellChimeEvent(EventSessionId: S1, EventId: E1)'',
            ArgString ''CameraClipPreview(EventSessionId: S1, PreviewUrl: https://clip)''],
         HttpGet ''https://clip'',
         OsStat ''output/2023/05/30/10/S1_0.mp4'',
         OsStat ''output/2023/05/30/10'',
         OsMkdirAll ''output/2023/05/30/10'',
         OsCreate ''output/2023/05/30/10/S1_0.mp4'',
         IoCopy ''output/2023/05/30/10/S1_0.mp4'',
         FmtPrintf ''Wrote clipPreview for eventSession %v as %v (bytes: %v)\<newline>''
           [ArgString ''S1'', ArgString ''.mp4'', ArgInt 10],
         FileClose ''output/2023/05/30/10/S1_0.mp4'',
         BodyClose,
         Ack]"
  by (simp add: receiveCallback_example exampleWorldAcked_def exampleWorld1_def
      exampleChimeLog_def)

text \<open>
  Claim C5 as amended: whenever the callback returns, it has acknowledged the message
  exactly once, as the last of its effects, after unmarshalling and processing have ended;
  this is so when unmarshalling fails and when processing fails, in which cases the failure
  is logged first. A callback whose processing does not end does not acknowledge.
\<close>

theorem receiveCallback_acknowledges_on_return:
  "(receiveCallback env p data w = Some (r, w') \<longrightarrow>
      effects w' = effects w @ newEffects w w' \<and> newEffects w w' \<noteq> [] \<and>
      last (newEffects w w') = Ack \<and> Ack \<notin> set (butlast (newEffects w w'))) \<and>
   (UnmarshalDeviceEvent env data = Inl err \<longrightarrow>
      receiveCallback env p data w =
        Some (None, emit Ack
          (emit (LogPrintf (''Failed to unmarshal message: %v'' @ newlineTab @ ''%v'')
                   [ArgError (Some err), ArgBytes data]) w))) \<and>
   (UnmarshalDeviceEvent env data = Inr event \<and>
    Process env p event w = Some (Some err, w1) \<and> \<not> isPanic err \<longrightarrow>
      receiveCallback env p data w =
        Some (None, emit Ack
          (emit (LogPrintf (''Failed to process message: %v'' @ newlineTab @ ''%v'')
                   [ArgError (Some err), ArgBytes data]) w1))) \<and>
   (UnmarshalDeviceEvent env data = Inr event \<and> Process env p event w = Some (None, w1) \<longrightarrow>
      receiveCallback env p data w = Some (None, emit Ack w1)) \<and>
   (UnmarshalDeviceEvent env data = Inr event \<and> Process env p event w = None \<longrightarrow>
      receiveCallback env p data w = None)"
proof -
  have last_ack: "effects w' = effects w @ newEffects w w' \<and> newEffects w w' \<noteq> [] \<and>
      last (newEffects w w') = Ack \<and> Ack \<notin> set (butlast (newEffects w w'))"
    if run: "receiveCallback env p data w = Some (r, w')"
  proof -
    have k: "\<And>w1. grows (\<lambda>e. e \<noteq> Ack) w w1 \<Longrightarrow> w' = emit Ack w1 \<Longrightarrow> ?thesis"
      by (auto simp: grows_iff emit_def newEffects_def list_all_iff)
    show ?thesis
    proof (cases "UnmarshalDeviceEvent env data")
      case (Inl e)
      with run have "w' = emit Ack
          (emit (LogPrintf (''Failed to unmarshal message: %v'' @ newlineTab @ ''%v'')
                   [ArgError (Some e), ArgBytes data]) w)"
        by (simp add: receiveCallback_def)
      then show ?thesis
        by (rule k [rotated]) (auto intro!: grows_emit grows_refl)
    next
      case (Inr ev)
      show ?thesis
      proof (cases "Process env p ev w")
        case None
        with Inr run show ?thesis by (simp add: receiveCallback_def)
      next
        case (Some a)
        obtain r1 w2 where a: "a = (r1, w2)" by (cases a)
        from Process_effects [OF Some [unfolded a]]
        have g: "grows (\<lambda>e. e \<noteq> Ack) w w2" by simp
        from run Inr Some a have "w' = emit Ack w2 \<or>
           (\<exists>e. w' = emit Ack
              (emit (LogPrintf (''Failed to process message: %v'' @ newlineTab @ ''%v'')
                       [ArgError (Some e), ArgBytes data]) w2))"
          by (auto simp: receiveCallback_def split: option.splits if_splits)
        then show ?thesis
        proof (elim disjE exE)
          assume "w' = emit Ack w2"
          with g show ?thesis by (rule k)
        next
          fix e
          assume "w' = emit Ack
              (emit (LogPrintf (''Failed to process message: %v'' @ newlineTab @ ''%v'')
                       [ArgError (Some e), ArgBytes data]) w2)"
          then show ?thesis
            by (rule k [rotated]) (auto intro!: grows_emit g)
        qed
      qed
    qed
  qed
  show ?thesis
    using last_ack by (auto simp: receiveCallback_def)
qed

theorem receiveCallback_acknowledges_on_return_witness:
  "last (newEffects exampleWorld exampleWorldAcked) = Ack \<and>
   Ack \<notin> set (butlast (newEffects exampleWorld exampleWorldAcked)) \<and>
   receiveCallback exampleConsumerEnv exampleProcessor ''garbage'' exampleWorld =
     Some (None, emit Ack
       (emit (LogPrintf (''Failed to unmarshal message: %v'' @ newlineTab @ ''%v'')
                [ArgError (Some (LibError ''invalid character'')), ArgBytes ''garbage''])
          exampleWorld)) \<and>
   receiveCallback exampleConsumerEnv exampleProcessor ''empty'' exampleWorld =
     Some (None, emit Ack
       (emit (LogPrintf (''Failed to process message: %v'' @ newlineTab @ ''%v'')
                [ArgError (Some (ErrorString
                   (''Unsupported event: '' @ DeviceEvent_format exampleEmptyEvent))),
                 ArgBytes ''empty''])
          exampleWorld)) \<and>
   receiveCallback exampleConsumerEnv exampleProcessor ''event'' exampleWorld =
     Some (None, emit Ack (exampleWorld1\<lparr>effects := exampleChimeLog # effects exampleWorld1\<rparr>)) \<and>
   receiveCallback exampleConsumerEnv exampleProcessor ''event'' exampleBlockedWorld = None"
proof -
  have u: "UnmarshalDeviceEvent exampleConsumerEnv ''garbage'' = Inl (LibError ''invalid character'')"
    "UnmarshalDeviceEvent exampleConsumerEnv ''empty'' = Inr exampleEmptyEvent"
    "UnmarshalDeviceEvent exampleConsumerEnv ''event'' = Inr exampleEvent"
    by (simp_all add: exampleConsumerEnv_def)
  have e: "Process exampleConsumerEnv exampleProcessor exampleEmptyEvent exampleWorld =
      Some (Some (ErrorString (''Unsupported event: '' @ DeviceEvent_format exampleEmptyEvent)),
            exampleWorld)"
    by (simp add: Process_def exampleEmptyEvent_def exampleEvent_def)
  have np: "\<not> isPanic (ErrorString (''Unsupported event: '' @ DeviceEvent_format exampleEmptyEvent))"
    by (simp add: isPanic_def)
  note T = receiveCallback_acknowledges_on_return
  let ?w1 = "exampleWorld1\<lparr>effects := exampleChimeLog # effects exampleWorld1\<rparr>"
  let ?e = "ErrorString (''Unsupported event: '' @ DeviceEvent_format exampleEmptyEvent)"
  have c1: "last (newEffects exampleWorld exampleWorldAcked) = Ack \<and>
            Ack \<notin> set (butlast (newEffects exampleWorld exampleWorldAcked))"
    using T [of exampleConsumerEnv exampleProcessor "''event''" exampleWorld None
        exampleWorldAcked ?e exampleEvent exampleWorld] receiveCallback_example
    by blast
  have c2: "receiveCallback exampleConsumerEnv exampleProcessor ''garbage'' exampleWorld =
     Some (None, emit Ack
       (emit (LogPrintf (''Failed to unmarshal message: %v'' @ newlineTab @ ''%v'')
                [ArgError (Some (LibError ''invalid character'')), ArgBytes ''garbage''])
          exampleWorld))"
    using T [of exampleConsumerEnv exampleProcessor "''garbage''" exampleWorld None
        exampleWorld "LibError ''invalid character''" exampleEvent exampleWorld] u(1)
    by blast
  have c3: "receiveCallback exampleConsumerEnv exampleProcessor ''empty'' exampleWorld =
     Some (None, emit Ack
       (emit (LogPrintf (''Failed to process message: %v'' @ newlineTab @ ''%v'')
                [ArgError (Some ?e), ArgBytes ''empty''])
          exampleWorld))"
    using T [of exampleConsumerEnv exampleProcessor "''empty''" exampleWorld None
        exampleWorld ?e exampleEmptyEvent exampleWorld] u(2) e np
    by blast
  have c4: "receiveCallback exampleConsumerEnv exampleProcessor ''event'' exampleWorld =
     Some (None, emit Ack ?w1)"
    using T [of exampleConsumerEnv exampleProcessor "''event''" exampleWorld None
        exampleWorld ?e exampleEvent ?w1] u(3) Process_example
    by blast
  have c5: "receiveCallback exampleConsumerEnv exampleProcessor ''event'' exampleBlockedWorld = None"
    using T [of exampleConsumerEnv exampleProcessor "''event''" exampleBlockedWorld None
        exampleWorld ?e exampleEvent exampleWorld] u(3) Process_example_blocked
    by blast
  from c1 c2 c3 c4 c5 show ?thesis by blast
qed

end
